theory Spec2Isabelle
  imports Main "HOL-Library.Sublist"
begin

section \<open>Text\<close>

text \<open>
  JavaScript strings are modelled as \<open>string\<close>: a character of the model is a code unit
  below 256.  The rule tables of the safety filter are ASCII, and \<open>toLowerCase\<close> is
  modelled on the ASCII letters; every other character is left as it is.  The lowered text
  is only searched for ASCII literals, and JavaScript lowers no other character below 256
  to an ASCII one, so these searches give what the code gives.
\<close>

definition toLowerChar :: "char \<Rightarrow> char" where
  "toLowerChar c =
     (case map_of (zip ''ABCDEFGHIJKLMNOPQRSTUVWXYZ'' ''abcdefghijklmnopqrstuvwxyz'') c of
        Some l \<Rightarrow> l
      | None \<Rightarrow> c)"

definition toLowerCase :: "string \<Rightarrow> string" where
  "toLowerCase s = map toLowerChar s"

text \<open>
  \<open>s.includes(sub)\<close>: \<open>sub\<close> occurs in \<open>s\<close> as a contiguous substring (\<open>includes\<close> is a
  reserved word of Isabelle, hence the suffix).
\<close>

fun includes_str :: "string \<Rightarrow> string \<Rightarrow> bool" where
  "includes_str [] sub = (sub = [])"
| "includes_str (c # cs) sub = (prefix sub (c # cs) \<or> includes_str cs sub)"

text \<open>
  The character classes \<open>\s\<close> and \<open>\w\<close> of a regular expression.  Below 256, the white
  space of \<open>\s\<close> and of \<open>trim\<close> is the space, the codes \<open>0x09\<close> to \<open>0x0D\<close> and the no-break
  space \<open>0xA0\<close>; \<open>\w\<close> is ASCII.
\<close>

definition isSpace :: "char \<Rightarrow> bool" where
  "isSpace c =
     (c \<in> set [CHR '' '', CHR 0x09, CHR 0x0A, CHR 0x0B, CHR 0x0C, CHR 0x0D, CHR 0xA0])"

definition isWord :: "char \<Rightarrow> bool" where
  "isWord c = (c \<in> set (''abcdefghijklmnopqrstuvwxyz'' @ ''ABCDEFGHIJKLMNOPQRSTUVWXYZ''
                          @ ''0123456789_''))"

text \<open>
  A literal, given in lower case, matches at the start of \<open>s\<close> without regard to case
  (a regular expression literal under the flag \<open>i\<close>).
\<close>

definition startsWith_ci :: "string \<Rightarrow> string \<Rightarrow> bool" where
  "startsWith_ci lit s = (toLowerCase (take (length lit) s) = lit)"

text \<open>\<open>s.trim()\<close>.\<close>

definition trim :: "string \<Rightarrow> string" where
  "trim s = rev (dropWhile isSpace (rev (dropWhile isSpace s)))"

text \<open>
  \<open>s.replace(/lit/gi, '')\<close> for a literal \<open>lit\<close> given in lower case: the matches are taken
  from left to right and do not overlap.
\<close>

fun removeAll_ci :: "string \<Rightarrow> string \<Rightarrow> string" where
  "removeAll_ci lit [] = []"
| "removeAll_ci lit (c # cs) =
     (if lit \<noteq> [] \<and> startsWith_ci lit (c # cs)
      then removeAll_ci lit (drop (length lit) (c # cs))
      else c # removeAll_ci lit cs)"

text \<open>
  An unanchored regular expression search: the pattern, given as a matcher anchored at the
  start of its argument, is tried at every position.
\<close>

fun search :: "(string \<Rightarrow> bool) \<Rightarrow> string \<Rightarrow> bool" where
  "search m [] = m []"
| "search m (c # cs) = (m (c # cs) \<or> search m cs)"

section \<open>Safety rules (config/safety-rules)\<close>

definition emergencyKeywords :: "string list" where
  "emergencyKeywords =
     [''chest pain'', ''heart attack'', ''can't breathe'', ''difficulty breathing'',
      ''severe bleeding'', ''choking'', ''stroke'', ''seizure'', ''unconscious'',
      ''suicidal'', ''kill myself'', ''overdose'', ''severe pain'', ''anaphylaxis'']"

definition urgentKeywords :: "string list" where
  "urgentKeywords =
     [''high fever'', ''blood in stool'', ''blood in urine'', ''worsening'',
      ''severe vomiting'', ''dehydrated'', ''infection'']"

definition prohibitedTopics :: "string list" where
  "prohibitedTopics = [''abortion'', ''euthanasia'', ''drug synthesis'', ''self-surgery'']"

definition restrictedActions :: "string list" where
  "restrictedActions = [''prescribe'', ''diagnosis'', ''stop taking medication'']"

record cannedResponse =
  title :: "string option"
  message :: string

definition emergencyResponse :: cannedResponse where
  "emergencyResponse =
     \<lparr>title = Some ''EMERGENCY'',
      message = ''This may be a medical emergency. Call emergency services or go to the nearest ER immediately.''\<rparr>"

definition urgentResponse :: cannedResponse where
  "urgentResponse =
     \<lparr>title = Some ''URGENT'',
      message = ''Your symptoms suggest you should seek medical care soon.''\<rparr>"

definition refusalResponse :: cannedResponse where
  "refusalResponse =
     \<lparr>title = None,
      message = ''I cannot provide information on this topic. Please speak with a healthcare provider.''\<rparr>"

definition maxMessagesPerSession :: nat where
  "maxMessagesPerSession = 50"

definition maxSessionDurationHours :: nat where
  "maxSessionDurationHours = 24"

section \<open>Safety filter (middleware/emergency-detector)\<close>

record emergencyDetection =
  isEmergency :: bool
  isUrgent :: bool
  priority :: string
  matchedKeywords :: "string list"
  response :: "cannedResponse option"

record prohibitedDetection =
  isProhibited :: bool
  matchedTopics :: "string list"
  refusal :: "cannedResponse option"

record validation =
  isValid :: bool
  violations :: "string list"
  reason :: "string option"

definition detectEmergency :: "string \<Rightarrow> emergencyDetection" where
  "detectEmergency msg =
     (let lowerMessage = toLowerCase msg;
          emergencyMatches = filter (\<lambda>keyword. includes_str lowerMessage (toLowerCase keyword))
                               emergencyKeywords
      in if length emergencyMatches > 0
         then \<lparr>isEmergency = True, isUrgent = False, priority = ''emergency'',
               matchedKeywords = emergencyMatches, response = Some emergencyResponse\<rparr>
         else
           (let urgentMatches = filter (\<lambda>keyword. includes_str lowerMessage (toLowerCase keyword))
                                  urgentKeywords
            in if length urgentMatches > 0
               then \<lparr>isEmergency = False, isUrgent = True, priority = ''urgent'',
                     matchedKeywords = urgentMatches, response = Some urgentResponse\<rparr>
               else \<lparr>isEmergency = False, isUrgent = False, priority = ''normal'',
                     matchedKeywords = [], response = None\<rparr>))"

definition detectProhibitedTopic :: "string \<Rightarrow> prohibitedDetection" where
  "detectProhibitedTopic msg =
     (let lowerMessage = toLowerCase msg;
          prohibitedMatches = filter (\<lambda>topic. includes_str lowerMessage (toLowerCase topic))
                                prohibitedTopics
      in if length prohibitedMatches > 0
         then \<lparr>isProhibited = True, matchedTopics = prohibitedMatches,
               refusal = Some refusalResponse\<rparr>
         else \<lparr>isProhibited = False, matchedTopics = [], refusal = None\<rparr>)"

text \<open>
  The tail \<open>\s+(?:a|an|the)\s+\w+\<close> shared by the first two diagnosis patterns, anchored at the
  start of its argument.  A run of \<open>\s+\<close> is followed by a character that is not white space,
  so it is the whole run; the alternation is tried in the order written.
\<close>

definition articleAndWord :: "string \<Rightarrow> bool" where
  "articleAndWord s =
     (if s \<noteq> [] \<and> isSpace (hd s)
      then
        (let r = dropWhile isSpace s
         in list_ex (\<lambda>article.
              if startsWith_ci article r
              then
                (let t = drop (length article) r
                 in if t \<noteq> [] \<and> isSpace (hd t)
                    then (let u = dropWhile isSpace t in u \<noteq> [] \<and> isWord (hd u))
                    else False)
              else False)
            [''a'', ''an'', ''the''])
      else False)"

text \<open>A literal followed by the rest of a pattern.\<close>

definition lit_then :: "string \<Rightarrow> (string \<Rightarrow> bool) \<Rightarrow> string \<Rightarrow> bool" where
  "lit_then lit rest s = (if startsWith_ci lit s then rest (drop (length lit) s) else False)"

definition diagnosisPatterns :: "(string \<Rightarrow> bool) list" where
  "diagnosisPatterns =
     [search (lit_then ''you have'' articleAndWord),
      search (lit_then ''this is'' articleAndWord),
      search (lit_then ''you are suffering from'' (\<lambda>_. True)),
      search (lit_then ''diagnosis is'' (\<lambda>_. True))]"

definition validateResponse :: "string \<Rightarrow> validation" where
  "validateResponse resp =
     (let lowerResponse = toLowerCase resp;
          restrictedMatches = filter (\<lambda>action. includes_str lowerResponse (toLowerCase action))
                                restrictedActions
      in if length restrictedMatches > 0
         then \<lparr>isValid = False, violations = restrictedMatches,
               reason = Some ''Response contains prohibited medical actions''\<rparr>
         else if list_ex (\<lambda>pattern. pattern resp) diagnosisPatterns
         then \<lparr>isValid = False, violations = [''diagnostic language''],
               reason = Some ''Response contains diagnostic statements''\<rparr>
         else \<lparr>isValid = True, violations = [], reason = None\<rparr>)"

section \<open>Session tokens (validateSession)\<close>

text \<open>
  \<open>uuidRegex.test(sessionId)\<close>, the test \<open>validateSession\<close> makes of a token: five groups
  of 8, 4, 4, 4 and 12 hexadecimal digits, in either case, with a hyphen between two groups.
  The canonical text of a token is the one in lower case: what \<open>uuidv4()\<close> generates and
  what a column of type \<open>UUID\<close> gives back.
\<close>

definition isHexDigit :: "char \<Rightarrow> bool" where
  "isHexDigit c = (c \<in> set ''0123456789abcdefABCDEF'')"

fun hexGroups :: "nat list \<Rightarrow> string \<Rightarrow> bool" where
  "hexGroups [] s = (s = [])"
| "hexGroups [n] s = (length s = n \<and> list_all isHexDigit s)"
| "hexGroups (n # m # ns) s =
     (length (take n s) = n \<and> list_all isHexDigit (take n s) \<and> take 1 (drop n s) = ''-''
      \<and> hexGroups (m # ns) (drop (Suc n) s))"

definition uuidRegex :: "string \<Rightarrow> bool" where
  "uuidRegex s = hexGroups [8, 4, 4, 4, 12] s"

definition canonicalToken :: "string \<Rightarrow> bool" where
  "canonicalToken s = (uuidRegex s \<and> toLowerCase s = s)"

section \<open>Conversation store (services/conversation-service)\<close>

text \<open>
  The three tables of the database script.  Timestamps are milliseconds; the value of
  \<open>NOW()\<close> in a query is the argument \<open>now\<close> of the operation that issues it.  An
  exception is a value: \<open>Error\<close> is JavaScript's \<open>new Error(message)\<close>, \<open>DatabaseError\<close> is
  what \<open>db.query\<close> throws, \<open>CanceledError\<close> is the HTTP client's rejection of an aborted
  request.
\<close>

datatype exn = Error string | TypeError string | DatabaseError string | CanceledError

fun exn_name :: "exn \<Rightarrow> string" where
  "exn_name (Error m) = ''Error''"
| "exn_name (TypeError m) = ''TypeError''"
| "exn_name (DatabaseError m) = ''error''"
| "exn_name CanceledError = ''CanceledError''"

datatype jval = JBool bool | JNum nat | JStr string

type_synonym metadata = "(string \<times> jval) list"

record conversation =
  c_id :: nat
  session_id :: string
  patient_id :: "nat option"
  status :: string
  staff_id :: "nat option"
  created_at :: nat
  updated_at :: nat
  closed_at :: "nat option"

record chatMessage =
  m_id :: nat
  conversation_id :: nat
  role :: string
  content :: string
  metadata :: metadata
  m_created_at :: nat

record handoffRequest =
  h_id :: nat
  h_conversation_id :: nat
  h_reason :: string
  h_priority :: string
  h_status :: string
  assigned_staff_id :: "nat option"
  assigned_at :: "nat option"
  resolved_at :: "nat option"
  h_created_at :: nat

record database =
  ai_conversations :: "conversation list"
  ai_messages :: "chatMessage list"
  ai_handoff_requests :: "handoffRequest list"

record config =
  safetyMode :: bool
  systemPrompt :: string
  systemPromptFast :: string

text \<open>
  \<open>SELECT * FROM ai_conversations WHERE session_id = $1\<close>, first row or \<open>null\<close>.  The column
  \<open>session_id\<close> has the type \<open>UUID\<close> and is unique: the database compares the values the
  texts denote, and raises an error on a text that denotes none.  The model compares the
  texts.  The two agree when the token asked for and the tokens stored are canonical texts
  (\<open>canonicalToken\<close>); a token in another spelling and a malformed token are outside the
  model.  The same holds of \<open>updateStatus\<close> and \<open>closeConversation\<close>.
\<close>

definition getConversation :: "string \<Rightarrow> database \<Rightarrow> conversation option" where
  "getConversation sessionId db = find (\<lambda>c. session_id c = sessionId) (ai_conversations db)"

text \<open>
  \<open>INSERT INTO ai_messages\<close>, then the update of the conversation's \<open>updated_at\<close>.  The
  insert violates the foreign key when no conversation has the given id.
\<close>

definition addMessage ::
  "nat \<Rightarrow> string \<Rightarrow> string \<Rightarrow> metadata \<Rightarrow> nat \<Rightarrow> database \<Rightarrow> exn + (chatMessage \<times> database)" where
  "addMessage conversationId r txt meta now db =
     (if list_ex (\<lambda>c. c_id c = conversationId) (ai_conversations db)
      then
        (let row = \<lparr>m_id = Suc (length (ai_messages db)), conversation_id = conversationId,
                    role = r, content = txt, metadata = meta, m_created_at = now\<rparr>
         in Inr (row,
                 db\<lparr>ai_messages := ai_messages db @ [row],
                    ai_conversations :=
                      map (\<lambda>c. if c_id c = conversationId then c\<lparr>updated_at := now\<rparr> else c)
                        (ai_conversations db)\<rparr>))
      else Inl (DatabaseError ''ai_messages_conversation_id_fkey''))"



text \<open>The rows of a conversation in ascending order of \<open>created_at\<close>.\<close>

definition messagesOf :: "nat \<Rightarrow> database \<Rightarrow> chatMessage list" where
  "messagesOf conversationId db =
     sort_key m_created_at (filter (\<lambda>m. conversation_id m = conversationId) (ai_messages db))"

definition getHistory :: "string \<Rightarrow> nat \<Rightarrow> database \<Rightarrow> exn + chatMessage list" where
  "getHistory sessionId limit db =
     (case getConversation sessionId db of
        None \<Rightarrow> Inl (Error ''Conversation not found'')
      | Some c \<Rightarrow> Inr (take limit (messagesOf (c_id c) db)))"

text \<open>
  \<open>getContextMessages\<close>: the last \<open>maxMessages\<close> rows without the \<open>isGreeting\<close> key, newest
  first in the query and reversed by the caller, as pairs of role and content.
\<close>

definition getContextMessages :: "string \<Rightarrow> nat \<Rightarrow> database \<Rightarrow> (string \<times> string) list" where
  "getContextMessages sessionId maxMessages db =
     (case getConversation sessionId db of
        None \<Rightarrow> []
      | Some c \<Rightarrow>
          (let rows = take maxMessages
                        (rev (filter (\<lambda>m. map_of (metadata m) ''isGreeting'' = None)
                                (messagesOf (c_id c) db)))
           in map (\<lambda>row. (role row, content row)) (rev rows)))"

text \<open>\<open>UPDATE ... WHERE session_id = $3 RETURNING *\<close>, first row returned or \<open>undefined\<close>.\<close>

definition updateStatus ::
  "string \<Rightarrow> string \<Rightarrow> nat option \<Rightarrow> nat \<Rightarrow> database \<Rightarrow> conversation option \<times> database" where
  "updateStatus sessionId st staffId now db =
     (let db' = db\<lparr>ai_conversations :=
                    map (\<lambda>c. if session_id c = sessionId
                             then c\<lparr>status := st, staff_id := staffId, updated_at := now\<rparr>
                             else c)
                      (ai_conversations db)\<rparr>
      in (getConversation sessionId db', db'))"

definition closeConversation ::
  "string \<Rightarrow> nat \<Rightarrow> database \<Rightarrow> conversation option \<times> database" where
  "closeConversation sessionId now db =
     (let db' = db\<lparr>ai_conversations :=
                    map (\<lambda>c. if session_id c = sessionId
                             then c\<lparr>status := ''closed'', closed_at := Some now, updated_at := now\<rparr>
                             else c)
                      (ai_conversations db)\<rparr>
      in (getConversation sessionId db', db'))"

datatype limitsCheck = Exceeded string | WithinLimits nat nat

fun exceeded :: "limitsCheck \<Rightarrow> bool" where
  "exceeded (Exceeded why) = True"
| "exceeded (WithinLimits messageCount msDiff) = False"

text \<open>
  \<open>checkLimits\<close>.  The age \<open>hoursDiff\<close> is kept in milliseconds: \<open>(now - createdAt) / 3600000\<close>
  is at least \<open>maxSessionDurationHours\<close> exactly when the difference in milliseconds is at
  least \<open>maxSessionDurationHours * 3600000\<close>; a creation time in the future gives a negative
  age, which is below the bound, as is the truncated difference \<open>0\<close>.
\<close>

definition checkLimits :: "string \<Rightarrow> nat \<Rightarrow> database \<Rightarrow> limitsCheck" where
  "checkLimits sessionId now db =
     (case getConversation sessionId db of
        None \<Rightarrow> Exceeded ''Conversation not found''
      | Some c \<Rightarrow>
          (let messageCount = length (filter (\<lambda>m. conversation_id m = c_id c) (ai_messages db))
           in if messageCount \<ge> maxMessagesPerSession
              then Exceeded ''Maximum messages reached''
              else
                (let msDiff = now - created_at c
                 in if msDiff \<ge> maxSessionDurationHours * 3600000
                    then Exceeded ''Maximum session duration reached''
                    else WithinLimits messageCount msDiff)))"

section \<open>Inference client (services/llama-service)\<close>

text \<open>
  The completion endpoint of the engine is a parameter: it maps the prompt to the body of
  the HTTP response and the time the request took, or to \<open>None\<close> when the request fails
  (engine not running, connection refused, timeout).  Starting the engine and its health
  check are outside the model.
\<close>

record completion =
  c_content :: string
  tokens_predicted :: nat
  elapsed :: nat

type_synonym engine = "string \<Rightarrow> completion option"

record aiResponse =
  ai_content :: string
  ai_tokens :: nat
  ai_duration :: nat
  ai_model :: string

definition formatTurn :: "string \<times> string \<Rightarrow> string" where
  "formatTurn msg =
     (if fst msg = ''user'' then ''User: '' @ snd msg @ ''\<newline>\<newline>''
      else if fst msg = ''assistant'' then ''Assistant: '' @ snd msg @ ''\<newline>\<newline>''
      else [])"

definition formatPrompt :: "config \<Rightarrow> (string \<times> string) list \<Rightarrow> string" where
  "formatPrompt cfg messages =
     (let sysPrompt = (if safetyMode cfg then systemPrompt cfg else systemPromptFast cfg)
      in (if sysPrompt = [] then [] else sysPrompt @ ''\<newline>\<newline>'')
         @ concat (map formatTurn messages) @ ''Assistant: '')"

text \<open>The four \<open>replace\<close> calls and the \<open>trim\<close> applied to generated text.\<close>

definition stripControlTokens :: "string \<Rightarrow> string" where
  "stripControlTokens txt =
     trim (removeAll_ci ''<|end|>'' (removeAll_ci ''<|system|>''
            (removeAll_ci ''<|user|>'' (removeAll_ci ''<|assistant|>'' txt))))"

definition modelName :: string where
  "modelName = ''llama-3-8b-instruct''"

definition generateResponse :: "engine \<Rightarrow> string \<Rightarrow> exn + aiResponse" where
  "generateResponse eng prompt =
     (case eng prompt of
        None \<Rightarrow> Inl (Error ''Cannot connect to LLaMA server. Make sure it is running.'')
      | Some body \<Rightarrow>
          if c_content body = [] then Inl (Error ''Invalid response from LLaMA server'')
          else Inr \<lparr>ai_content = stripControlTokens (c_content body),
                    ai_tokens = tokens_predicted body, ai_duration = elapsed body,
                    ai_model = modelName\<rparr>)"

section \<open>Chat controller: a turn with a whole response\<close>

text \<open>
  The state of the process: the database, the prompts handed to the inference client so
  far (one entry for each call of \<open>generateResponse\<close> or \<open>generateStreamingResponse\<close>), and
  the controller's map \<open>activeSessions\<close>.  The queries of one turn read the same value
  \<open>now\<close> of the clock.  A \<open>catch\<close> block is the error branch of each call that can throw,
  with the state as the calls before it left it.
\<close>

record sessionData =
  sd_isCancelled :: bool

record system =
  db :: database
  inferenceCalls :: "string list"
  activeSessions :: "string \<rightharpoonup> sessionData"

record request =
  sessionId :: string
  body_message :: string
  req_emergencyDetection :: "emergencyDetection option"
  req_prohibitedDetection :: "prohibitedDetection option"

definition emergencyDetectorMiddleware :: "request \<Rightarrow> request" where
  "emergencyDetectorMiddleware req =
     (if body_message req = [] then req
      else req\<lparr>req_emergencyDetection := Some (detectEmergency (body_message req)),
               req_prohibitedDetection := Some (detectProhibitedTopic (body_message req))\<rparr>)"

text \<open>
  A request as the router hands it to the first middleware, and as it reaches the
  controller on the routes \<open>/patient/message\<close> and \<open>/patient/message/stream\<close>, where
  \<open>emergencyDetectorMiddleware\<close> runs last before the controller.
\<close>

definition httpRequest :: "string \<Rightarrow> string \<Rightarrow> request" where
  "httpRequest sid msg =
     \<lparr>sessionId = sid, body_message = msg, req_emergencyDetection = None,
      req_prohibitedDetection = None\<rparr>"

definition patientMessage :: "string \<Rightarrow> string \<Rightarrow> request" where
  "patientMessage sid msg = emergencyDetectorMiddleware (httpRequest sid msg)"

record payload =
  p_sessionId :: string
  p_message :: string
  p_role :: string
  p_metadata :: metadata

datatype httpReply = Fail nat string | Success | Message payload

definition deflection :: string where
  "deflection = ''I apologize, but I cannot provide a proper response to that. ''
                @ ''Please consult with a healthcare professional for appropriate guidance.''"

definition createHandoffRequest ::
  "nat \<Rightarrow> string \<Rightarrow> string \<Rightarrow> nat \<Rightarrow> database \<Rightarrow> exn + (handoffRequest \<times> database)" where
  "createHandoffRequest conversationId why prio now d =
     (if list_ex (\<lambda>c. c_id c = conversationId) (ai_conversations d)
      then
        (let row = \<lparr>h_id = Suc (length (ai_handoff_requests d)),
                    h_conversation_id = conversationId, h_reason = why, h_priority = prio,
                    h_status = ''pending'', assigned_staff_id = None, assigned_at = None,
                    resolved_at = None, h_created_at = now\<rparr>
         in Inr (row, d\<lparr>ai_handoff_requests := ai_handoff_requests d @ [row]\<rparr>))
      else Inl (DatabaseError ''ai_handoff_requests_conversation_id_fkey''))"

definition internalError :: httpReply where
  "internalError = Fail 500 ''INTERNAL_ERROR''"

definition emergencyOf :: "request \<Rightarrow> emergencyDetection" where
  "emergencyOf req =
     (case req_emergencyDetection req of
        Some d \<Rightarrow> d
      | None \<Rightarrow> detectEmergency (body_message req))"

definition prohibitedOf :: "request \<Rightarrow> prohibitedDetection" where
  "prohibitedOf req =
     (case req_prohibitedDetection req of
        Some d \<Rightarrow> d
      | None \<Rightarrow> detectProhibitedTopic (body_message req))"

text \<open>The fast-mode branch of \<open>sendMessage\<close>, entered after the user's message is stored.\<close>

definition sendMessage_fast ::
  "config \<Rightarrow> engine \<Rightarrow> nat \<Rightarrow> request \<Rightarrow> conversation \<Rightarrow> system \<Rightarrow> httpReply \<times> system" where
  "sendMessage_fast cfg eng now req conversation s =
     (let contextMessages = getContextMessages (sessionId req) 10 (db s);
          prompt = formatPrompt cfg contextMessages;
          s1 = s\<lparr>inferenceCalls := inferenceCalls s @ [prompt]\<rparr>
      in case generateResponse eng prompt of
           Inl e \<Rightarrow> (internalError, s1)
         | Inr ai \<Rightarrow>
             (case addMessage (c_id conversation) ''assistant'' (ai_content ai)
                     [(''tokens'', JNum (ai_tokens ai)), (''duration'', JNum (ai_duration ai)),
                      (''fastMode'', JBool True)] now (db s1) of
                Inl e \<Rightarrow> (internalError, s1)
              | Inr (row, d) \<Rightarrow>
                  (Message \<lparr>p_sessionId = sessionId req, p_message = ai_content ai,
                            p_role = ''assistant'',
                            p_metadata = [(''tokens'', JNum (ai_tokens ai)),
                                          (''duration'', JNum (ai_duration ai))]\<rparr>,
                   s1\<lparr>db := d\<rparr>)))"

text \<open>
  The safety-mode branch after the short-circuits: generation, validation and the urgent
  advisory.  The two assignments to \<open>finalResponse\<close> are the override \<open>finalResponse0\<close> and,
  for an urgent message, the advisory put in front of it.
\<close>

definition sendMessage_generate ::
  "config \<Rightarrow> engine \<Rightarrow> nat \<Rightarrow> request \<Rightarrow> conversation \<Rightarrow> system \<Rightarrow> httpReply \<times> system" where
  "sendMessage_generate cfg eng now req conversation s =
     (let contextMessages = getContextMessages (sessionId req) 10 (db s);
          prompt = formatPrompt cfg contextMessages;
          s1 = s\<lparr>inferenceCalls := inferenceCalls s @ [prompt]\<rparr>
      in case generateResponse eng prompt of
           Inl e \<Rightarrow> (internalError, s1)
         | Inr ai \<Rightarrow>
             (let validation = validateResponse (ai_content ai);
                  finalResponse0 = (if isValid validation then ai_content ai else deflection);
                  responseMetadata0 =
                    [(''tokens'', JNum (ai_tokens ai)), (''duration'', JNum (ai_duration ai))]
                    @ (if isValid validation then [] else [(''safetyOverride'', JBool True)])
              in if isUrgent (emergencyOf req)
                 then
                   (case response (emergencyOf req) of
                      None \<Rightarrow> (internalError, s1)
                    | Some r \<Rightarrow>
                        (let finalResponse = message r @ ''\<newline>\<newline>'' @ finalResponse0;
                             responseMetadata = responseMetadata0 @ [(''urgentGuidance'', JBool True)]
                         in case addMessage (c_id conversation) ''assistant'' finalResponse
                                   responseMetadata now (db s1) of
                              Inl e \<Rightarrow> (internalError, s1)
                            | Inr (row, d) \<Rightarrow>
                                (Message \<lparr>p_sessionId = sessionId req, p_message = finalResponse,
                                          p_role = ''assistant'', p_metadata = responseMetadata\<rparr>,
                                 s1\<lparr>db := d\<rparr>)))
                 else
                   (case addMessage (c_id conversation) ''assistant'' finalResponse0
                           responseMetadata0 now (db s1) of
                      Inl e \<Rightarrow> (internalError, s1)
                    | Inr (row, d) \<Rightarrow>
                        (Message \<lparr>p_sessionId = sessionId req, p_message = finalResponse0,
                                  p_role = ''assistant'', p_metadata = responseMetadata0\<rparr>,
                         s1\<lparr>db := d\<rparr>))))"

text \<open>The safety-mode branch: the classification and the two short-circuits.\<close>

definition sendMessage_safe ::
  "config \<Rightarrow> engine \<Rightarrow> nat \<Rightarrow> request \<Rightarrow> conversation \<Rightarrow> system \<Rightarrow> httpReply \<times> system" where
  "sendMessage_safe cfg eng now req conversation s =
     (if isEmergency (emergencyOf req)
      then
        (case response (emergencyOf req) of
           None \<Rightarrow> (internalError, s)
         | Some r \<Rightarrow>
             (case addMessage (c_id conversation) ''assistant'' (message r)
                     [(''safetyOverride'', JBool True), (''emergencyResponse'', JBool True),
                      (''priority'', JStr ''emergency'')] now (db s) of
                Inl e \<Rightarrow> (internalError, s)
              | Inr (row, d1) \<Rightarrow>
                  (case createHandoffRequest (c_id conversation) ''emergency'' ''emergency''
                          now d1 of
                     Inl e \<Rightarrow> (internalError, s\<lparr>db := d1\<rparr>)
                   | Inr (h, d2) \<Rightarrow>
                       (Message \<lparr>p_sessionId = sessionId req, p_message = message r,
                                 p_role = ''assistant'', p_metadata = []\<rparr>,
                        s\<lparr>db := d2\<rparr>))))
      else if isProhibited (prohibitedOf req)
      then
        (case refusal (prohibitedOf req) of
           None \<Rightarrow> (internalError, s)
         | Some r \<Rightarrow>
             (case addMessage (c_id conversation) ''assistant'' (message r)
                     [(''safetyOverride'', JBool True), (''refusal'', JBool True)] now (db s) of
                Inl e \<Rightarrow> (internalError, s)
              | Inr (row, d1) \<Rightarrow>
                  (Message \<lparr>p_sessionId = sessionId req, p_message = message r,
                            p_role = ''assistant'', p_metadata = []\<rparr>,
                   s\<lparr>db := d1\<rparr>)))
      else sendMessage_generate cfg eng now req conversation s)"

definition sendMessage ::
  "config \<Rightarrow> engine \<Rightarrow> nat \<Rightarrow> request \<Rightarrow> system \<Rightarrow> httpReply \<times> system" where
  "sendMessage cfg eng now req s =
     (case getConversation (sessionId req) (db s) of
        None \<Rightarrow> (Fail 404 ''NOT_FOUND'', s)
      | Some conversation \<Rightarrow>
          if status conversation = ''staff-taken'' then (Fail 403 ''FORBIDDEN'', s)
          else if exceeded (checkLimits (sessionId req) now (db s))
          then (Fail 429 ''RATE_LIMITED'', s)
          else
            (case addMessage (c_id conversation) ''user'' (body_message req) [] now (db s) of
               Inl e \<Rightarrow> (internalError, s)
             | Inr (row, d) \<Rightarrow>
                 if \<not> safetyMode cfg
                 then sendMessage_fast cfg eng now req conversation (s\<lparr>db := d\<rparr>)
                 else sendMessage_safe cfg eng now req conversation (s\<lparr>db := d\<rparr>)))"

section \<open>Chat controller: a streamed turn\<close>

text \<open>
  A streamed turn runs on the event loop: between two of its \<open>await\<close>s the handlers of other
  events run.  Two kinds of event touch the turn: a call of \<open>cancelGeneration\<close> for its
  session and the \<open>close\<close> event of its request (the client went away).  The schedule
  \<open>sched k\<close> lists the events handled while the turn waits at its \<open>k\<close>-th \<open>await\<close>; the events
  handled while the engine streams are part of the engine's script.  The model follows one
  turn: a second turn of the same session that overlaps it, and the heartbeat timer, are
  outside it.

  The variables of the closure are the record \<open>turn\<close>: the local flag \<open>isCancelled\<close>, whether
  its \<open>abortController\<close> has fired, \<open>res.writableEnded\<close>, and the events written to the
  response so far.
\<close>

datatype ext = CancelCall | Disconnect

datatype sse =
  Start string
| Token string string
| Done payload
| ErrorEvent string

record turn =
  isCancelled :: bool
  aborted :: bool
  writableEnded :: bool
  written :: "sse list"

definition newTurn :: turn where
  "newTurn = \<lparr>isCancelled = False, aborted = False, writableEnded = False, written = []\<rparr>"

definition sendEvent :: "sse \<Rightarrow> turn \<Rightarrow> turn" where
  "sendEvent ev t =
     (if \<not> isCancelled t \<and> \<not> writableEnded t then t\<lparr>written := written t @ [ev]\<rparr> else t)"

definition resEnd :: "turn \<Rightarrow> turn" where
  "resEnd t = t\<lparr>writableEnded := True\<rparr>"

text \<open>
  \<open>cancelGeneration\<close>, handled while the turn \<open>t\<close> of that session is in flight: the entry of
  \<open>activeSessions\<close> is the one the turn registered, so the controller it aborts is the
  turn's.
\<close>

definition cancelGeneration :: "string \<Rightarrow> turn \<Rightarrow> system \<Rightarrow> httpReply \<times> turn \<times> system" where
  "cancelGeneration sid t s =
     (if sid = [] then (Fail 400 ''BAD_REQUEST'', t, s)
      else
        (case activeSessions s sid of
           None \<Rightarrow> (Success, t, s)
         | Some sessionData \<Rightarrow>
             (Success, t\<lparr>aborted := True\<rparr>,
              s\<lparr>activeSessions := (activeSessions s)(sid \<mapsto> sessionData\<lparr>sd_isCancelled := True\<rparr>)\<rparr>)))"

text \<open>The handler of the request's \<open>close\<close> event.\<close>

definition onClose :: "string \<Rightarrow> turn \<Rightarrow> system \<Rightarrow> turn" where
  "onClose sid t s =
     (let t1 = (case activeSessions s sid of
                  None \<Rightarrow> t
                | Some sessionData \<Rightarrow> if sd_isCancelled sessionData then t\<lparr>isCancelled := True\<rparr> else t)
      in if \<not> writableEnded t1 then t1\<lparr>isCancelled := True, aborted := True\<rparr> else t1)"

fun deliver :: "string \<Rightarrow> ext \<Rightarrow> turn \<times> system \<Rightarrow> turn \<times> system" where
  "deliver sid CancelCall (t, s) = snd (cancelGeneration sid t s)"
| "deliver sid Disconnect (t, s) = (onClose sid t s, s)"

definition deliverAll :: "string \<Rightarrow> ext list \<Rightarrow> turn \<times> system \<Rightarrow> turn \<times> system" where
  "deliverAll sid evs ts = fold (deliver sid) evs ts"

text \<open>
  The engine's answer to a streamed request: the sequence of content fragments, interleaved
  with the events handled between them, and the way the stream ends (a fragment flagged
  \<open>stop\<close>, the end of the stream, or a stream error).
\<close>

datatype chunk = Tok string | Ext ext

datatype ending = Stop | EndOfStream | StreamError

record stream =
  chunks :: "chunk list"
  ending :: ending
  s_elapsed :: nat

type_synonym streamEngine = "string \<Rightarrow> stream option"

definition finish :: "ending \<Rightarrow> nat \<Rightarrow> string \<Rightarrow> nat \<Rightarrow> exn + aiResponse" where
  "finish fin el fullContent tokenCount =
     (let ai = \<lparr>ai_content = stripControlTokens fullContent, ai_tokens = tokenCount,
                ai_duration = el, ai_model = modelName\<rparr>
      in case fin of
           Stop \<Rightarrow> Inr ai
         | EndOfStream \<Rightarrow>
             if ai_content ai = [] then Inl (Error ''Empty response from streaming'') else Inr ai
         | StreamError \<Rightarrow> Inl (Error ''stream error''))"

text \<open>
  The \<open>data\<close> handler over the stream, with the controller's \<open>onToken\<close> callback inlined:
  \<open>acc\<close> and \<open>n\<close> are the service's \<open>fullContent\<close> and \<open>tokenCount\<close>, \<open>full\<close> is the
  controller's \<open>fullContent\<close>.  An event that fires the abort signal destroys the stream and
  rejects with \<open>new Error('AbortError')\<close>.
\<close>

fun streamChunks ::
  "string \<Rightarrow> chunk list \<Rightarrow> ending \<Rightarrow> nat \<Rightarrow> string \<Rightarrow> nat \<Rightarrow> string \<Rightarrow> turn \<times> system
     \<Rightarrow> (exn + aiResponse) \<times> turn \<times> system" where
  "streamChunks sid [] fin el acc n full ts = (finish fin el acc n, ts)"
| "streamChunks sid (Tok tok # rest) fin el acc n full ts =
     (if tok = [] then streamChunks sid rest fin el acc n full ts
      else if \<not> isCancelled (fst ts)
      then streamChunks sid rest fin el (acc @ tok) (Suc n) (full @ tok)
             (sendEvent (Token tok (full @ tok)) (fst ts), snd ts)
      else streamChunks sid rest fin el (acc @ tok) (Suc n) full ts)"
| "streamChunks sid (Ext x # rest) fin el acc n full ts =
     (let ts' = deliver sid x ts
      in if aborted (fst ts') then (Inl (Error ''AbortError''), ts')
         else streamChunks sid rest fin el acc n full ts')"

text \<open>
  \<open>generateStreamingResponse\<close>, called with the turn's abort signal: a signal that has
  already fired rejects the request at once.
\<close>

definition generateStreamingResponse ::
  "streamEngine \<Rightarrow> string \<Rightarrow> string \<Rightarrow> string \<Rightarrow> turn \<times> system
     \<Rightarrow> (exn + aiResponse) \<times> turn \<times> system" where
  "generateStreamingResponse seng sid prompt full ts =
     (let ts1 = (fst ts, (snd ts)\<lparr>inferenceCalls := inferenceCalls (snd ts) @ [prompt]\<rparr>)
      in if aborted (fst ts1) then (Inl CanceledError, ts1)
         else
           (case seng prompt of
              None \<Rightarrow> (Inl (Error ''Cannot connect to LLaMA server. Make sure it is running.''), ts1)
            | Some st \<Rightarrow> streamChunks sid (chunks st) (ending st) (s_elapsed st) [] 0 full ts1))"

text \<open>The \<open>catch\<close> block of \<open>sendMessageStream\<close>.\<close>

definition onError :: "string \<Rightarrow> exn \<Rightarrow> turn \<times> system \<Rightarrow> turn \<times> system" where
  "onError sid e ts =
     (let s' = (snd ts)\<lparr>activeSessions := (activeSessions (snd ts))(sid := None)\<rparr>
      in if exn_name e = ''AbortError'' \<or> isCancelled (fst ts)
         then (resEnd (fst ts), s')
         else (resEnd (sendEvent (ErrorEvent ''INTERNAL_ERROR'') (fst ts)), s'))"

text \<open>
  A store call of the turn at its \<open>k\<close>-th \<open>await\<close>: the new database is put in place and the
  events of the schedule are handled.
\<close>

definition awaited :: "string \<Rightarrow> ext list \<Rightarrow> database \<Rightarrow> turn \<times> system \<Rightarrow> turn \<times> system" where
  "awaited sid evs d ts = deliverAll sid evs (fst ts, (snd ts)\<lparr>db := d\<rparr>)"

definition nullMessage :: exn where
  "nullMessage = TypeError ''Cannot read properties of null (reading 'message')''"

definition unregister :: "string \<Rightarrow> system \<Rightarrow> system" where
  "unregister sid s = s\<lparr>activeSessions := (activeSessions s)(sid := None)\<rparr>"

text \<open>The fast-mode branch of \<open>sendMessageStream\<close>.\<close>

definition sendMessageStream_fast ::
  "config \<Rightarrow> streamEngine \<Rightarrow> nat \<Rightarrow> request \<Rightarrow> (nat \<Rightarrow> ext list) \<Rightarrow> conversation
     \<Rightarrow> turn \<times> system \<Rightarrow> turn \<times> system" where
  "sendMessageStream_fast cfg seng now req sched conversation ts =
     (let sid = sessionId req;
          contextMessages = getContextMessages sid 10 (db (snd ts));
          ts4 = deliverAll sid (sched 4) ts;
          ts5 = (sendEvent (Start sid) (fst ts4), snd ts4)
      in case generateStreamingResponse seng sid (formatPrompt cfg contextMessages) [] ts5 of
           (Inl e, ts6) \<Rightarrow> onError sid e ts6
         | (Inr ai, ts6) \<Rightarrow>
             if \<not> isCancelled (fst ts6)
             then
               (case addMessage (c_id conversation) ''assistant'' (ai_content ai)
                       [(''tokens'', JNum (ai_tokens ai)), (''duration'', JNum (ai_duration ai)),
                        (''fastMode'', JBool True), (''streamed'', JBool True)]
                       now (db (snd ts6)) of
                  Inl e \<Rightarrow> onError sid e (deliverAll sid (sched 6) ts6)
                | Inr (row, d) \<Rightarrow>
                    (let ts7 = awaited sid (sched 6) d ts6
                     in (resEnd (sendEvent (Done \<lparr>p_sessionId = sid, p_message = ai_content ai,
                                                   p_role = ''assistant'', p_metadata = []\<rparr>)
                                   (fst ts7)),
                         snd ts7)))
             else (resEnd (fst ts6), snd ts6))"

text \<open>
  The safety-mode branch from the call of the engine on; \<open>urgentPrefix\<close> is empty unless the
  message was classified urgent.
\<close>

definition sendMessageStream_finish ::
  "config \<Rightarrow> streamEngine \<Rightarrow> nat \<Rightarrow> request \<Rightarrow> (nat \<Rightarrow> ext list) \<Rightarrow> conversation
     \<Rightarrow> string \<Rightarrow> string \<Rightarrow> turn \<times> system \<Rightarrow> turn \<times> system" where
  "sendMessageStream_finish cfg seng now req sched conversation prompt urgentPrefix ts =
     (let sid = sessionId req
      in case generateStreamingResponse seng sid prompt urgentPrefix ts of
           (Inl e, ts6) \<Rightarrow> onError sid e ts6
         | (Inr ai, ts6) \<Rightarrow>
             (let validation = validateResponse (ai_content ai);
                  finalResponse = (if isValid validation then urgentPrefix @ ai_content ai
                                   else deflection);
                  responseMetadata =
                    [(''tokens'', JNum (ai_tokens ai)), (''duration'', JNum (ai_duration ai)),
                     (''model'', JStr (ai_model ai)), (''validated'', JBool (isValid validation)),
                     (''streamed'', JBool True)]
                    @ (if isValid validation then []
                       else [(''safetyOverride'', JBool True), (''validationFailed'', JBool True)])
                    @ (if isUrgent (emergencyOf req) then [(''urgentGuidance'', JBool True)]
                       else [])
              in if \<not> isCancelled (fst ts6)
                 then
                   (case addMessage (c_id conversation) ''assistant'' finalResponse
                           responseMetadata now (db (snd ts6)) of
                      Inl e \<Rightarrow> onError sid e (deliverAll sid (sched 6) ts6)
                    | Inr (row, d) \<Rightarrow>
                        (let ts7 = awaited sid (sched 6) d ts6
                         in (resEnd (sendEvent (Done \<lparr>p_sessionId = sid, p_message = finalResponse,
                                                       p_role = ''assistant'',
                                                       p_metadata = responseMetadata\<rparr>)
                                       (fst ts7)),
                             unregister sid (snd ts7))))
                 else (resEnd (fst ts6), unregister sid (snd ts6))))"

text \<open>The \<open>start\<close> event and the advisory of an urgent message, written before the engine is called.\<close>

definition sendMessageStream_generate ::
  "config \<Rightarrow> streamEngine \<Rightarrow> nat \<Rightarrow> request \<Rightarrow> (nat \<Rightarrow> ext list) \<Rightarrow> conversation
     \<Rightarrow> turn \<times> system \<Rightarrow> turn \<times> system" where
  "sendMessageStream_generate cfg seng now req sched conversation ts =
     (let sid = sessionId req;
          contextMessages = getContextMessages sid 10 (db (snd ts));
          ts4 = deliverAll sid (sched 4) ts;
          ts5 = (sendEvent (Start sid) (fst ts4), snd ts4)
      in if isUrgent (emergencyOf req)
         then
           (case response (emergencyOf req) of
              None \<Rightarrow> onError sid nullMessage ts5
            | Some r \<Rightarrow>
                (let urgentPrefix = message r @ ''\<newline>\<newline>''
                 in sendMessageStream_finish cfg seng now req sched conversation
                      (formatPrompt cfg contextMessages) urgentPrefix
                      (sendEvent (Token urgentPrefix urgentPrefix) (fst ts5), snd ts5)))
         else sendMessageStream_finish cfg seng now req sched conversation
                (formatPrompt cfg contextMessages) [] ts5)"

text \<open>The safety-mode branch of \<open>sendMessageStream\<close>: classification and short-circuits.\<close>

definition sendMessageStream_safe ::
  "config \<Rightarrow> streamEngine \<Rightarrow> nat \<Rightarrow> request \<Rightarrow> (nat \<Rightarrow> ext list) \<Rightarrow> conversation
     \<Rightarrow> turn \<times> system \<Rightarrow> turn \<times> system" where
  "sendMessageStream_safe cfg seng now req sched conversation ts =
     (let sid = sessionId req
      in if isEmergency (emergencyOf req)
         then
           (case response (emergencyOf req) of
              None \<Rightarrow> onError sid nullMessage ts
            | Some r \<Rightarrow>
                (case addMessage (c_id conversation) ''assistant'' (message r)
                        [(''safetyOverride'', JBool True), (''emergencyResponse'', JBool True),
                         (''priority'', JStr ''emergency'')] now (db (snd ts)) of
                   Inl e \<Rightarrow> onError sid e (deliverAll sid (sched 4) ts)
                 | Inr (row, d1) \<Rightarrow>
                     (let ts4 = awaited sid (sched 4) d1 ts
                      in case createHandoffRequest (c_id conversation) ''emergency'' ''emergency''
                                now (db (snd ts4)) of
                           Inl e \<Rightarrow> onError sid e (deliverAll sid (sched 5) ts4)
                         | Inr (h, d2) \<Rightarrow>
                             (let ts5 = awaited sid (sched 5) d2 ts4
                              in (resEnd
                                    (sendEvent
                                       (Done \<lparr>p_sessionId = sid, p_message = message r,
                                              p_role = ''assistant'',
                                              p_metadata = [(''isEmergency'', JBool True),
                                                            (''priority'', JStr ''emergency''),
                                                            (''handoffCreated'', JBool True)]\<rparr>)
                                       (sendEvent (Token (message r) (message r))
                                          (sendEvent (Start sid) (fst ts5)))),
                                  snd ts5)))))
         else if isProhibited (prohibitedOf req)
         then
           (case refusal (prohibitedOf req) of
              None \<Rightarrow> onError sid nullMessage ts
            | Some r \<Rightarrow>
                (case addMessage (c_id conversation) ''assistant'' (message r)
                        [(''safetyOverride'', JBool True), (''refusal'', JBool True)]
                        now (db (snd ts)) of
                   Inl e \<Rightarrow> onError sid e (deliverAll sid (sched 4) ts)
                 | Inr (row, d1) \<Rightarrow>
                     (let ts4 = awaited sid (sched 4) d1 ts
                      in (resEnd
                            (sendEvent
                               (Done \<lparr>p_sessionId = sid, p_message = message r,
                                      p_role = ''assistant'',
                                      p_metadata = [(''isRefusal'', JBool True)]\<rparr>)
                               (sendEvent (Token (message r) (message r))
                                  (sendEvent (Start sid) (fst ts4)))),
                          snd ts4))))
         else sendMessageStream_generate cfg seng now req sched conversation ts)"

text \<open>
  \<open>sendMessageStream\<close>: the result is the turn's closure when the response has ended, with
  the events written to the client, and the state of the process.
\<close>

definition sendMessageStream ::
  "config \<Rightarrow> streamEngine \<Rightarrow> nat \<Rightarrow> request \<Rightarrow> (nat \<Rightarrow> ext list) \<Rightarrow> system \<Rightarrow> turn \<times> system" where
  "sendMessageStream cfg seng now req sched s =
     (let sid = sessionId req;
          ts0 = (newTurn,
                 s\<lparr>activeSessions := (activeSessions s)(sid \<mapsto> \<lparr>sd_isCancelled = False\<rparr>)\<rparr>);
          ts1 = deliverAll sid (sched 1) ts0
      in case getConversation sid (db (snd ts1)) of
           None \<Rightarrow> (resEnd (sendEvent (ErrorEvent ''NOT_FOUND'') (fst ts1)), snd ts1)
         | Some conversation \<Rightarrow>
             if status conversation = ''staff-taken''
             then (resEnd (sendEvent (ErrorEvent ''FORBIDDEN'') (fst ts1)), snd ts1)
             else
               (let ts2 = deliverAll sid (sched 2) ts1
                in if exceeded (checkLimits sid now (db (snd ts2)))
                   then (resEnd (sendEvent (ErrorEvent ''RATE_LIMITED'') (fst ts2)), snd ts2)
                   else
                     (case addMessage (c_id conversation) ''user'' (body_message req) [] now
                             (db (snd ts2)) of
                        Inl e \<Rightarrow> onError sid e (deliverAll sid (sched 3) ts2)
                      | Inr (row, d) \<Rightarrow>
                          (let ts3 = awaited sid (sched 3) d ts2
                           in if \<not> safetyMode cfg
                              then sendMessageStream_fast cfg seng now req sched conversation ts3
                              else sendMessageStream_safe cfg seng now req sched conversation ts3))))"

section \<open>Handoff controller (controllers/handoff-controller)\<close>




section \<open>Notions used in the statements\<close>

text \<open>The row \<open>addMessage\<close> inserts, and the conversations after its update of \<open>updated_at\<close>.\<close>

definition messageRow ::
  "database \<Rightarrow> nat \<Rightarrow> string \<Rightarrow> string \<Rightarrow> metadata \<Rightarrow> nat \<Rightarrow> chatMessage" where
  "messageRow d cid r txt meta now =
     \<lparr>m_id = Suc (length (ai_messages d)), conversation_id = cid, role = r, content = txt,
      metadata = meta, m_created_at = now\<rparr>"

definition touch :: "nat \<Rightarrow> nat \<Rightarrow> database \<Rightarrow> conversation list" where
  "touch cid now d =
     map (\<lambda>c. if c_id c = cid then c\<lparr>updated_at := now\<rparr> else c) (ai_conversations d)"

text \<open>
  The effect of an emergency short-circuit on the state \<open>s\<close>, giving \<open>s'\<close>: no call of the
  inference client, the user's message and one assistant message with the canned emergency
  text appended to the messages, and one pending handoff request of priority
  \<open>emergency\<close> appended to the handoff requests.
\<close>

definition emergencyShortCircuit :: "conversation \<Rightarrow> string \<Rightarrow> system \<Rightarrow> system \<Rightarrow> bool" where
  "emergencyShortCircuit c msg s s' =
     (inferenceCalls s' = inferenceCalls s \<and>
      (\<exists>u a. ai_messages (db s') = ai_messages (db s) @ [u, a] \<and>
             conversation_id u = c_id c \<and> role u = ''user'' \<and> content u = msg \<and>
             conversation_id a = c_id c \<and> role a = ''assistant'' \<and>
             content a = message emergencyResponse) \<and>
      (\<exists>h. ai_handoff_requests (db s') = ai_handoff_requests (db s) @ [h] \<and>
           h_conversation_id h = c_id c \<and> h_priority h = ''emergency'' \<and>
           h_status h = ''pending''))"

text \<open>
  The row of the user's message a turn stores first, and the database with it.
\<close>

definition userRow :: "conversation \<Rightarrow> string \<Rightarrow> nat \<Rightarrow> system \<Rightarrow> chatMessage" where
  "userRow c msg now s = messageRow (db s) (c_id c) ''user'' msg [] now"

definition afterUser :: "conversation \<Rightarrow> string \<Rightarrow> nat \<Rightarrow> system \<Rightarrow> database" where
  "afterUser c msg now s =
     (db s)\<lparr>ai_messages := ai_messages (db s) @ [userRow c msg now s],
            ai_conversations := touch (c_id c) now (db s)\<rparr>"

text \<open>The text an engine's script streams: its fragments in order.\<close>

fun tokensOf :: "chunk list \<Rightarrow> string" where
  "tokensOf [] = []"
| "tokensOf (Tok tok # rest) = tok @ tokensOf rest"
| "tokensOf (Ext x # rest) = tokensOf rest"

text \<open>
  A streamed turn is in flight while its entry is in \<open>activeSessions\<close> and its response has
  not ended; an engine's script is interrupted when an event is handled between its
  fragments.
\<close>

definition inFlight :: "string \<Rightarrow> turn \<times> system \<Rightarrow> bool" where
  "inFlight sid ts = (activeSessions (snd ts) sid \<noteq> None \<and> \<not> writableEnded (fst ts))"

definition interrupted :: "chunk list \<Rightarrow> bool" where
  "interrupted cs = list_ex (\<lambda>c. case c of Tok tok \<Rightarrow> False | Ext x \<Rightarrow> True) cs"

text \<open>The messages carried by the \<open>done\<close> events among the events written.\<close>

fun doneMessages :: "sse list \<Rightarrow> string list" where
  "doneMessages [] = []"
| "doneMessages (Done p # evs) = p_message p # doneMessages evs"
| "doneMessages (ev # evs) = doneMessages evs"

text \<open>
  The \<open>token\<close> events an undisturbed stream writes: one for each fragment that is not empty,
  carrying the fragment and the text so far, which starts as \<open>full\<close>.  The text the \<open>token\<close>
  events among the events written carry, fragment after fragment.
\<close>

fun tokenEvents :: "string \<Rightarrow> chunk list \<Rightarrow> sse list" where
  "tokenEvents full [] = []"
| "tokenEvents full (Tok tok # rest) =
     (if tok = [] then tokenEvents full rest
      else Token tok (full @ tok) # tokenEvents (full @ tok) rest)"
| "tokenEvents full (Ext x # rest) = tokenEvents full rest"

fun tokenText :: "sse list \<Rightarrow> string" where
  "tokenText [] = []"
| "tokenText (Token tok full # evs) = tok @ tokenText evs"
| "tokenText (ev # evs) = tokenText evs"

text \<open>
  The variable \<open>urgentPrefix\<close> of \<open>sendMessageStream\<close> for a message, and the metadata of a
  streamed turn whose generated text failed validation.
\<close>

definition urgentPrefix :: "string \<Rightarrow> string" where
  "urgentPrefix msg =
     (if isUrgent (detectEmergency msg) then message urgentResponse @ ''\<newline>\<newline>'' else [])"

definition overrideMetadata :: "stream \<Rightarrow> string \<Rightarrow> string \<Rightarrow> metadata" where
  "overrideMetadata st pre msg =
     [(''tokens'', JNum (length (tokenEvents pre (chunks st)))),
      (''duration'', JNum (s_elapsed st)), (''model'', JStr modelName),
      (''validated'', JBool False), (''streamed'', JBool True),
      (''safetyOverride'', JBool True), (''validationFailed'', JBool True)]
     @ (if isUrgent (detectEmergency msg) then [(''urgentGuidance'', JBool True)] else [])"

text \<open>
  The relation between \<open>staff_id\<close> and \<open>status\<close> the specification states for a
  conversation, and the direction of it from \<open>status\<close> to \<open>staff_id\<close>.
\<close>

definition staffInvariant :: "conversation \<Rightarrow> bool" where
  "staffInvariant c = ((staff_id c \<noteq> None) = (status c = ''staff-taken''))"


subsection \<open>A small system for concrete runs\<close>

definition safeCfg :: config where
  "safeCfg = \<lparr>safetyMode = True,
              systemPrompt = ''You are a medical support assistant.'',
              systemPromptFast = []\<rparr>"

definition fastCfg :: config where
  "fastCfg = safeCfg\<lparr>safetyMode := False\<rparr>"

definition sid1 :: string where
  "sid1 = ''3f2b8c1e-0000-4000-8000-000000000001''"

definition conv1 :: conversation where
  "conv1 = \<lparr>c_id = 1, session_id = sid1, patient_id = None, status = ''ai-active'',
            staff_id = None, created_at = 1000, updated_at = 1000, closed_at = None\<rparr>"

definition greeting1 :: chatMessage where
  "greeting1 = \<lparr>m_id = 1, conversation_id = 1, role = ''assistant'',
                content = ''Hello! How can I help you today?'',
                metadata = [(''isGreeting'', JBool True)], m_created_at = 1000\<rparr>"

definition db1 :: database where
  "db1 = \<lparr>ai_conversations = [conv1], ai_messages = [greeting1], ai_handoff_requests = []\<rparr>"

definition sys1 :: system where
  "sys1 = \<lparr>db = db1, inferenceCalls = [], activeSessions = Map.empty\<rparr>"

text \<open>
  A session token no conversation has, and the database, and the conversation, after staff
  member 7 took over.
\<close>

definition sidX :: string where
  "sidX = ''ffffffff-0000-4000-8000-00000000000f''"



text \<open>
  The content that replaces a generated response failing validation in \<open>sendMessage\<close>: the
  canned deflection, after the urgent advisory when the message was classified urgent.
\<close>

definition overridden :: "string \<Rightarrow> string" where
  "overridden msg =
     (if isUrgent (detectEmergency msg)
      then message urgentResponse @ ''\<newline>\<newline>'' @ deflection
      else deflection)"

text \<open>The same system after the conversation was closed at time 1500.\<close>

definition sysClosed :: system where
  "sysClosed = sys1\<lparr>db := snd (closeConversation sid1 1500 db1)\<rparr>"

text \<open>Schedules: no event at all, and one cancel call while the turn is at its \<open>k\<close>-th \<open>await\<close>.\<close>

definition quiet :: "nat \<Rightarrow> ext list" where
  "quiet k = []"

definition cancelAt :: "nat \<Rightarrow> nat \<Rightarrow> ext list" where
  "cancelAt k j = (if j = k then [CancelCall] else [])"

definition disconnectAt :: "nat \<Rightarrow> nat \<Rightarrow> ext list" where
  "disconnectAt k j = (if j = k then [Disconnect] else [])"

text \<open>An engine whose answer passes validation, whole and streamed in two fragments.\<close>

definition engRest :: engine where
  "engRest prompt =
     Some \<lparr>c_content = ''Rest and drink water.'', tokens_predicted = 5, elapsed = 40\<rparr>"

definition sengRest :: streamEngine where
  "sengRest prompt =
     Some \<lparr>chunks = [Tok ''Rest and'', Tok '' drink water.''], ending = Stop, s_elapsed = 40\<rparr>"

text \<open>An engine whose answer is diagnostic language, whole and streamed in two fragments.\<close>

definition engCold :: engine where
  "engCold prompt = Some \<lparr>c_content = ''You have a cold.'', tokens_predicted = 5, elapsed = 40\<rparr>"

definition sengCold :: streamEngine where
  "sengCold prompt =
     Some \<lparr>chunks = [Tok ''You have'', Tok '' a cold.''], ending = Stop, s_elapsed = 40\<rparr>"

text \<open>The same stream with a cancel call, or a disconnect, handled between the fragments.\<close>

definition sengCancelled :: streamEngine where
  "sengCancelled prompt =
     Some \<lparr>chunks = [Tok ''Rest and'', Ext CancelCall, Tok '' drink water.''], ending = Stop,
           s_elapsed = 40\<rparr>"

definition sengDisconnected :: streamEngine where
  "sengDisconnected prompt =
     Some \<lparr>chunks = [Tok ''Rest and'', Ext Disconnect, Tok '' drink water.''], ending = Stop,
           s_elapsed = 40\<rparr>"

section \<open>Evaluation of the text functions\<close>

lemma lowerTable:
  "map_of (zip ''ABCDEFGHIJKLMNOPQRSTUVWXYZ'' ''abcdefghijklmnopqrstuvwxyz'') =
   (\<lambda>c. if c = CHR ''A'' then Some CHR ''a'' else if c = CHR ''B'' then Some CHR ''b''
    else if c = CHR ''C'' then Some CHR ''c'' else if c = CHR ''D'' then Some CHR ''d''
    else if c = CHR ''E'' then Some CHR ''e'' else if c = CHR ''F'' then Some CHR ''f''
    else if c = CHR ''G'' then Some CHR ''g'' else if c = CHR ''H'' then Some CHR ''h''
    else if c = CHR ''I'' then Some CHR ''i'' else if c = CHR ''J'' then Some CHR ''j''
    else if c = CHR ''K'' then Some CHR ''k'' else if c = CHR ''L'' then Some CHR ''l''
    else if c = CHR ''M'' then Some CHR ''m'' else if c = CHR ''N'' then Some CHR ''n''
    else if c = CHR ''O'' then Some CHR ''o'' else if c = CHR ''P'' then Some CHR ''p''
    else if c = CHR ''Q'' then Some CHR ''q'' else if c = CHR ''R'' then Some CHR ''r''
    else if c = CHR ''S'' then Some CHR ''s'' else if c = CHR ''T'' then Some CHR ''t''
    else if c = CHR ''U'' then Some CHR ''u'' else if c = CHR ''V'' then Some CHR ''v''
    else if c = CHR ''W'' then Some CHR ''w'' else if c = CHR ''X'' then Some CHR ''x''
    else if c = CHR ''Y'' then Some CHR ''y'' else if c = CHR ''Z'' then Some CHR ''z''
    else None)"
  by (rule ext) simp

text \<open>
  The upper-case letters are the codes \<open>0x41\<close> to \<open>0x5A\<close>, and the lower-case letter of each
  is \<open>0x20\<close> above it: on the bits of a character the table reads as follows.
\<close>

lemma toLowerChar_Char:
  "toLowerChar (Char b0 b1 b2 b3 b4 b5 b6 b7) =
     (if \<not> b7 \<and> b6 \<and> \<not> b5 \<and> (b0 \<or> b1 \<or> b2 \<or> b3 \<or> b4)
         \<and> \<not> (b4 \<and> b3 \<and> (b2 \<or> (b1 \<and> b0)))
      then Char b0 b1 b2 b3 b4 True b6 b7
      else Char b0 b1 b2 b3 b4 b5 b6 b7)"
  unfolding toLowerChar_def lowerTable
  by (cases b0; cases b1; cases b2; cases b3; cases b4; cases b5; cases b6; cases b7; simp)

lemmas text_eval =
  toLowerCase_def toLowerChar_Char startsWith_ci_def isSpace_def isWord_def trim_def

lemma keywords_lower:
  "map toLowerCase emergencyKeywords = emergencyKeywords"
  "map toLowerCase urgentKeywords = urgentKeywords"
  "map toLowerCase prohibitedTopics = prohibitedTopics"
  "map toLowerCase restrictedActions = restrictedActions"
  by (simp_all add: emergencyKeywords_def urgentKeywords_def prohibitedTopics_def
      restrictedActions_def text_eval)

lemma filter_lowered:
  "map toLowerCase ks = ks \<Longrightarrow>
   filter (\<lambda>k. includes_str m (toLowerCase k)) ks = filter (includes_str m) ks"
  by (induction ks) auto

lemma isEmergency_eval:
  "isEmergency (detectEmergency msg) = list_ex (includes_str (toLowerCase msg)) emergencyKeywords"
  by (simp add: detectEmergency_def Let_def filter_lowered keywords_lower list_ex_iff
      filter_empty_conv)

lemma isUrgent_eval:
  "isUrgent (detectEmergency msg) =
     (\<not> list_ex (includes_str (toLowerCase msg)) emergencyKeywords \<and>
      list_ex (includes_str (toLowerCase msg)) urgentKeywords)"
  by (simp add: detectEmergency_def Let_def filter_lowered keywords_lower list_ex_iff
      filter_empty_conv)

lemma isProhibited_eval:
  "isProhibited (detectProhibitedTopic msg) =
     list_ex (includes_str (toLowerCase msg)) prohibitedTopics"
  by (simp add: detectProhibitedTopic_def Let_def filter_lowered keywords_lower list_ex_iff
      filter_empty_conv)

lemma isValid_eval:
  "isValid (validateResponse resp) =
     (\<not> list_ex (includes_str (toLowerCase resp)) restrictedActions \<and>
      \<not> list_ex (\<lambda>pattern. pattern resp) diagnosisPatterns)"
  by (auto simp: validateResponse_def Let_def filter_lowered keywords_lower list_ex_iff
      filter_empty_conv)

section \<open>The classification and the store\<close>

lemma patientMessage_simps [simp]:
  "sessionId (patientMessage sid msg) = sid"
  "body_message (patientMessage sid msg) = msg"
  "emergencyOf (patientMessage sid msg) = detectEmergency msg"
  "prohibitedOf (patientMessage sid msg) = detectProhibitedTopic msg"
  by (simp_all add: patientMessage_def httpRequest_def emergencyDetectorMiddleware_def
      emergencyOf_def prohibitedOf_def)

lemma detectEmergency_response:
  "isEmergency (detectEmergency msg) \<Longrightarrow> response (detectEmergency msg) = Some emergencyResponse"
  by (simp add: detectEmergency_def Let_def split: if_splits)

lemma detectEmergency_urgent_response:
  "isUrgent (detectEmergency msg) \<Longrightarrow> response (detectEmergency msg) = Some urgentResponse"
  by (simp add: detectEmergency_def Let_def split: if_splits)

lemma detectEmergency_exclusive:
  "isUrgent (detectEmergency msg) \<Longrightarrow> \<not> isEmergency (detectEmergency msg)"
  by (simp add: detectEmergency_def Let_def split: if_splits)

lemma detectProhibited_refusal:
  "isProhibited (detectProhibitedTopic msg) \<Longrightarrow>
   refusal (detectProhibitedTopic msg) = Some refusalResponse"
  by (simp add: detectProhibitedTopic_def Let_def split: if_splits)

lemma getConversation_known:
  "getConversation sid d = Some c \<Longrightarrow> list_ex (\<lambda>c'. c_id c' = c_id c) (ai_conversations d)"
  by (auto simp: getConversation_def find_Some_iff list_ex_iff)

lemma addMessage_known:
  "list_ex (\<lambda>c'. c_id c' = cid) (ai_conversations d) \<Longrightarrow>
   addMessage cid r txt meta now d =
     Inr (messageRow d cid r txt meta now,
          d\<lparr>ai_messages := ai_messages d @ [messageRow d cid r txt meta now],
            ai_conversations := touch cid now d\<rparr>)"
  by (simp add: addMessage_def messageRow_def touch_def Let_def)

lemma known_map_touch:
  "list_ex (\<lambda>c'. c_id c' = cid)
     (map (\<lambda>c. if c_id c = cid' then c\<lparr>updated_at := now\<rparr> else c) xs)
   = list_ex (\<lambda>c'. c_id c' = cid) xs"
  by (induction xs) auto

lemma known_touch:
  "list_ex (\<lambda>c'. c_id c' = cid) (touch cid' now d)
   = list_ex (\<lambda>c'. c_id c' = cid) (ai_conversations d)"
  by (simp add: touch_def known_map_touch)

lemma createHandoffRequest_known:
  "list_ex (\<lambda>c'. c_id c' = cid) (ai_conversations d) \<Longrightarrow>
   createHandoffRequest cid why prio now d =
     Inr (\<lparr>h_id = Suc (length (ai_handoff_requests d)), h_conversation_id = cid,
           h_reason = why, h_priority = prio, h_status = ''pending'',
           assigned_staff_id = None, assigned_at = None, resolved_at = None,
           h_created_at = now\<rparr>,
          d\<lparr>ai_handoff_requests := ai_handoff_requests d @
               [\<lparr>h_id = Suc (length (ai_handoff_requests d)), h_conversation_id = cid,
                 h_reason = why, h_priority = prio, h_status = ''pending'',
                 assigned_staff_id = None, assigned_at = None, resolved_at = None,
                 h_created_at = now\<rparr>]\<rparr>)"
  by (simp add: createHandoffRequest_def Let_def)

section \<open>Events handled during a streamed turn\<close>

text \<open>The handlers of a cancel call and of a disconnect touch neither the database nor the engine.\<close>

lemma deliver_db [simp]:
  "db (snd (deliver sid x ts)) = db (snd ts)"
  "inferenceCalls (snd (deliver sid x ts)) = inferenceCalls (snd ts)"
  by (cases x; cases ts; simp add: cancelGeneration_def split: option.splits)+

lemma deliverAll_db [simp]:
  "db (snd (deliverAll sid evs ts)) = db (snd ts)"
  "inferenceCalls (snd (deliverAll sid evs ts)) = inferenceCalls (snd ts)"
  unfolding deliverAll_def by (induction evs arbitrary: ts) simp_all

lemma awaited_db [simp]:
  "db (snd (awaited sid evs d ts)) = d"
  "inferenceCalls (snd (awaited sid evs d ts)) = inferenceCalls (snd ts)"
  by (simp_all add: awaited_def)

lemma deliver_written [simp]:
  "written (fst (deliver sid x ts)) = written (fst ts)"
  "writableEnded (fst (deliver sid x ts)) = writableEnded (fst ts)"
  by (cases x; cases ts; simp add: cancelGeneration_def onClose_def Let_def split: option.splits)+

lemma deliverAll_written [simp]:
  "written (fst (deliverAll sid evs ts)) = written (fst ts)"
  "writableEnded (fst (deliverAll sid evs ts)) = writableEnded (fst ts)"
  unfolding deliverAll_def by (induction evs arbitrary: ts) simp_all

lemma awaited_written [simp]:
  "written (fst (awaited sid evs d ts)) = written (fst ts)"
  "writableEnded (fst (awaited sid evs d ts)) = writableEnded (fst ts)"
  by (simp_all add: awaited_def)

lemma written_sendEvent:
  "set (written (sendEvent ev t)) \<subseteq> insert ev (set (written t))"
  by (auto simp: sendEvent_def)

lemma onError_db [simp]:
  "db (snd (onError sid e ts)) = db (snd ts)"
  "inferenceCalls (snd (onError sid e ts)) = inferenceCalls (snd ts)"
  by (simp_all add: onError_def Let_def)

text \<open>
  While the turn is in flight it stays so under every event, and every event fires the
  abort signal of the turn.
\<close>

lemma deliver_inFlight:
  "inFlight sid ts \<Longrightarrow> inFlight sid (deliver sid x ts)"
  by (cases x; cases ts)
     (auto simp: inFlight_def cancelGeneration_def onClose_def Let_def split: option.splits)

lemma deliverAll_inFlight:
  "inFlight sid ts \<Longrightarrow> inFlight sid (deliverAll sid evs ts)"
  unfolding deliverAll_def by (induction evs arbitrary: ts) (simp_all add: deliver_inFlight)

lemma awaited_inFlight:
  "inFlight sid ts \<Longrightarrow> inFlight sid (awaited sid evs d ts)"
proof -
  assume "inFlight sid ts"
  then have "inFlight sid (fst ts, (snd ts)\<lparr>db := d\<rparr>)"
    by (simp add: inFlight_def)
  then show ?thesis
    unfolding awaited_def by (rule deliverAll_inFlight)
qed

lemma deliver_aborts:
  "inFlight sid ts \<Longrightarrow> sid \<noteq> [] \<Longrightarrow> aborted (fst (deliver sid x ts))"
  by (cases x; cases ts)
     (auto simp: inFlight_def cancelGeneration_def onClose_def Let_def split: option.splits)

lemma sendEvent_inFlight:
  "inFlight sid (t, s) \<Longrightarrow> inFlight sid (sendEvent ev t, s)"
  by (simp add: inFlight_def sendEvent_def)

lemma newTurn_inFlight:
  "inFlight sid (newTurn, s\<lparr>activeSessions := (activeSessions s)(sid \<mapsto> sd)\<rparr>)"
  by (simp add: inFlight_def newTurn_def)

section \<open>The engine's stream\<close>

lemma streamChunks_db [simp]:
  "db (snd (snd (streamChunks sid cs fin el acc n full ts))) = db (snd ts)"
  "inferenceCalls (snd (snd (streamChunks sid cs fin el acc n full ts))) = inferenceCalls (snd ts)"
  by (induction sid cs fin el acc n full ts rule: streamChunks.induct; simp add: Let_def)+

text \<open>A stream that resolves resolves with the fragments of the whole script, cleaned.\<close>

lemma streamChunks_content:
  "fst (streamChunks sid cs fin el acc n full ts) = Inr ai \<Longrightarrow>
   ai_content ai = stripControlTokens (acc @ tokensOf cs)"
  by (induction sid cs fin el acc n full ts rule: streamChunks.induct)
     (auto simp: Let_def finish_def split: if_splits ending.splits)

lemma generateStreamingResponse_db [simp]:
  "db (snd (snd (generateStreamingResponse seng sid prompt full ts))) = db (snd ts)"
  "inferenceCalls (snd (snd (generateStreamingResponse seng sid prompt full ts)))
     = inferenceCalls (snd ts) @ [prompt]"
  by (simp_all add: generateStreamingResponse_def Let_def split: option.splits)

lemma generateStreamingResponse_content:
  "fst (generateStreamingResponse seng sid prompt full ts) = Inr ai \<Longrightarrow>
   \<exists>st. seng prompt = Some st \<and> ai_content ai = stripControlTokens (tokensOf (chunks st))"
  by (auto simp: generateStreamingResponse_def Let_def split: option.splits if_splits
      dest: streamChunks_content)

lemma generateStreamingResponse_state:
  "generateStreamingResponse seng sid prompt full ts = (res, ts') \<Longrightarrow>
   db (snd ts') = db (snd ts) \<and> inferenceCalls (snd ts') = inferenceCalls (snd ts) @ [prompt]"
  using generateStreamingResponse_db [of seng sid prompt full ts] by simp

lemma generateStreamingResponse_result:
  "generateStreamingResponse seng sid prompt full ts = (Inr ai, ts') \<Longrightarrow>
   \<exists>st. seng prompt = Some st \<and> ai_content ai = stripControlTokens (tokensOf (chunks st))"
  using generateStreamingResponse_content [of seng sid prompt full ts ai] by simp

text \<open>An interrupted stream rejects.\<close>

lemma streamChunks_interrupted:
  "inFlight sid ts \<Longrightarrow> sid \<noteq> [] \<Longrightarrow> interrupted cs \<Longrightarrow>
   fst (streamChunks sid cs fin el acc n full ts) = Inl (Error ''AbortError'')"
proof (induction sid cs fin el acc n full ts rule: streamChunks.induct)
  case (1 sid fin el acc n full ts)
  then show ?case by (simp add: interrupted_def)
next
  case (2 sid tok rest fin el acc n full ts)
  then show ?case
    by (cases ts) (auto simp: interrupted_def sendEvent_inFlight)
next
  case (3 sid x rest fin el acc n full ts)
  then show ?case
    by (simp add: Let_def deliver_aborts)
qed

lemma generateStreamingResponse_interrupted:
  "inFlight sid ts \<Longrightarrow> sid \<noteq> [] \<Longrightarrow> seng prompt = Some st \<Longrightarrow> interrupted (chunks st) \<Longrightarrow>
   \<exists>e. fst (generateStreamingResponse seng sid prompt full ts) = Inl e"
  by (simp add: generateStreamingResponse_def Let_def streamChunks_interrupted inFlight_def)

section \<open>An undisturbed stream\<close>

text \<open>
  A stream with no event between its fragments, read by a turn that is neither cancelled
  nor ended, writes the \<open>token\<close> events of its fragments and resolves as \<open>finish\<close> says; under
  the schedule \<open>quiet\<close> no event is handled while the turn waits.
\<close>

lemma interrupted_simps:
  "interrupted [] = False"
  "interrupted (Tok tok # rest) = interrupted rest"
  "interrupted (Ext x # rest) = True"
  by (simp_all add: interrupted_def)

lemma streamChunks_undisturbed:
  "\<not> interrupted cs \<Longrightarrow> \<not> isCancelled t \<Longrightarrow> \<not> writableEnded t \<Longrightarrow>
   streamChunks sid cs fin el acc n full (t, s) =
     (finish fin el (acc @ tokensOf cs) (n + length (tokenEvents full cs)),
      t\<lparr>written := written t @ tokenEvents full cs\<rparr>, s)"
proof (induction cs arbitrary: acc n full t)
  case Nil
  then show ?case by simp
next
  case (Cons ch rest)
  show ?case
  proof (cases ch)
    case (Tok tok)
    with Cons show ?thesis
      by (simp add: interrupted_simps sendEvent_def)
  next
    case (Ext x)
    with Cons show ?thesis
      by (simp add: interrupted_simps)
  qed
qed

lemma generateStreamingResponse_undisturbed:
  "seng prompt = Some st \<Longrightarrow> \<not> interrupted (chunks st) \<Longrightarrow>
   \<not> isCancelled t \<Longrightarrow> \<not> writableEnded t \<Longrightarrow> \<not> aborted t \<Longrightarrow>
   generateStreamingResponse seng sid prompt full (t, s) =
     (finish (ending st) (s_elapsed st) (tokensOf (chunks st))
        (length (tokenEvents full (chunks st))),
      t\<lparr>written := written t @ tokenEvents full (chunks st)\<rparr>,
      s\<lparr>inferenceCalls := inferenceCalls s @ [prompt]\<rparr>)"
  by (simp add: generateStreamingResponse_def streamChunks_undisturbed)

lemma finish_resolves:
  "fin \<noteq> StreamError \<Longrightarrow> (fin = EndOfStream \<longrightarrow> stripControlTokens txt \<noteq> []) \<Longrightarrow>
   finish fin el txt n =
     Inr \<lparr>ai_content = stripControlTokens txt, ai_tokens = n, ai_duration = el,
          ai_model = modelName\<rparr>"
  by (cases fin) (simp_all add: finish_def)

lemma tokenText_tokenEvents: "tokenText (tokenEvents full cs) = tokensOf cs"
  by (induction full cs rule: tokenEvents.induct) simp_all

lemma tokenText_append: "tokenText (xs @ ys) = tokenText xs @ tokenText ys"
  by (induction xs rule: tokenText.induct) simp_all

lemma quiet_deliverAll: "deliverAll sid (quiet k) ts = ts"
  by (simp add: deliverAll_def quiet_def)

lemma quiet_awaited: "awaited sid (quiet k) d ts = (fst ts, (snd ts)\<lparr>db := d\<rparr>)"
  by (simp add: awaited_def deliverAll_def quiet_def)

lemma afterUser_messages:
  "ai_messages (afterUser c msg now s) = ai_messages (db s) @ [userRow c msg now s]"
  by (simp add: afterUser_def)

section \<open>The emergency short-circuit\<close>

lemma sendMessage_emergency:
  assumes "safetyMode cfg"
    and "getConversation sid (db s) = Some c"
    and "status c \<noteq> ''staff-taken''"
    and "\<not> exceeded (checkLimits sid now (db s))"
    and "isEmergency (detectEmergency msg)"
  shows "emergencyShortCircuit c msg s (snd (sendMessage cfg eng now (patientMessage sid msg) s))"
  using assms
  by (simp add: sendMessage_def sendMessage_safe_def addMessage_known getConversation_known
      detectEmergency_response known_touch createHandoffRequest_known
      emergencyShortCircuit_def messageRow_def)

lemma sendMessage_emergency_reply:
  assumes "safetyMode cfg"
    and "getConversation sid (db s) = Some c"
    and "status c \<noteq> ''staff-taken''"
    and "\<not> exceeded (checkLimits sid now (db s))"
    and "isEmergency (detectEmergency msg)"
  shows "fst (sendMessage cfg eng now (patientMessage sid msg) s) =
           Message \<lparr>p_sessionId = sid, p_message = message emergencyResponse,
                    p_role = ''assistant'', p_metadata = []\<rparr>"
  using assms
  by (simp add: sendMessage_def sendMessage_safe_def addMessage_known getConversation_known
      detectEmergency_response known_touch createHandoffRequest_known)

lemma sendMessageStream_emergency:
  assumes "safetyMode cfg"
    and "getConversation sid (db s) = Some c"
    and "status c \<noteq> ''staff-taken''"
    and "\<not> exceeded (checkLimits sid now (db s))"
    and "isEmergency (detectEmergency msg)"
  shows "emergencyShortCircuit c msg s
           (snd (sendMessageStream cfg seng now (patientMessage sid msg) sched s))"
  using assms
  by (simp add: sendMessageStream_def sendMessageStream_safe_def addMessage_known
      getConversation_known detectEmergency_response known_touch createHandoffRequest_known
      emergencyShortCircuit_def messageRow_def Let_def)

text \<open>
  C1.  In safety mode, a turn that passes the checks on the conversation (it exists, is not
  staff-taken, and is within its limits) and whose message matches an emergency keyword
  makes no call of the inference client, persists the user's message followed by exactly
  one assistant message whose content is the canned emergency text, and creates exactly one
  pending handoff request of priority \<open>emergency\<close>.  This holds for \<open>sendMessage\<close>, which
  also returns the canned text, and for \<open>sendMessageStream\<close> under every engine and every
  schedule of cancel calls and disconnects.
\<close>

theorem emergency_turn:
  assumes "safetyMode cfg"
    and "getConversation sid (db s) = Some c"
    and "status c \<noteq> ''staff-taken''"
    and "\<not> exceeded (checkLimits sid now (db s))"
    and "isEmergency (detectEmergency msg)"
  shows "emergencyShortCircuit c msg s (snd (sendMessage cfg eng now (patientMessage sid msg) s))
       \<and> fst (sendMessage cfg eng now (patientMessage sid msg) s) =
           Message \<lparr>p_sessionId = sid, p_message = message emergencyResponse,
                    p_role = ''assistant'', p_metadata = []\<rparr>
       \<and> emergencyShortCircuit c msg s
           (snd (sendMessageStream cfg seng now (patientMessage sid msg) sched s))"
  using sendMessage_emergency [OF assms] sendMessage_emergency_reply [OF assms]
    sendMessageStream_emergency [OF assms]
  by simp

lemma sys1_simps:
  "getConversation sid1 (db sys1) = Some conv1"
  "status conv1 \<noteq> ''staff-taken''"
  "\<not> exceeded (checkLimits sid1 2000 (db sys1))"
  by (simp_all add: sys1_def db1_def getConversation_def conv1_def checkLimits_def
      greeting1_def maxMessagesPerSession_def maxSessionDurationHours_def)

lemma chest_pain_emergency: "isEmergency (detectEmergency ''I have chest pain'')"
  by (simp add: isEmergency_eval emergencyKeywords_def text_eval)

theorem emergency_turn_witness:
  "safetyMode safeCfg \<and> getConversation sid1 (db sys1) = Some conv1
   \<and> status conv1 \<noteq> ''staff-taken'' \<and> \<not> exceeded (checkLimits sid1 2000 (db sys1))
   \<and> isEmergency (detectEmergency ''I have chest pain'')
   \<and> emergencyShortCircuit conv1 ''I have chest pain'' sys1
       (snd (sendMessage safeCfg engCold 2000 (patientMessage sid1 ''I have chest pain'') sys1))
   \<and> emergencyShortCircuit conv1 ''I have chest pain'' sys1
       (snd (sendMessageStream safeCfg sengCold 2000
               (patientMessage sid1 ''I have chest pain'') quiet sys1))"
  using emergency_turn [of safeCfg sid1 sys1 conv1 2000 "''I have chest pain''" engCold
      sengCold quiet]
    sys1_simps chest_pain_emergency
  by (simp add: safeCfg_def)

section \<open>The store on an unknown session\<close>

lemma getConversation_None:
  "getConversation sid d = None \<Longrightarrow> list_all (\<lambda>c. session_id c \<noteq> sid) (ai_conversations d)"
  by (simp add: getConversation_def find_None_iff list_all_iff)

lemma map_unknown:
  "list_all (\<lambda>c. session_id c \<noteq> sid) cs \<Longrightarrow>
   map (\<lambda>c. if session_id c = sid then f c else c) cs = cs"
  by (induction cs) auto

lemma find_map_session:
  "(\<And>c. session_id (f c) = session_id c) \<Longrightarrow>
   find (\<lambda>c. session_id c = sid) (map (\<lambda>c. if session_id c = sid then f c else c) cs)
     = map_option f (find (\<lambda>c. session_id c = sid) cs)"
  by (induction cs) auto

lemma tokens_canonical: "canonicalToken sid1" "canonicalToken sidX"
  by (simp_all add: canonicalToken_def uuidRegex_def sid1_def sidX_def isHexDigit_def text_eval)

text \<open>
  C8, as the code has it.  The tokens stored are canonical texts, and the token asked for is
  a canonical text that no conversation has.  Then only \<open>getHistory\<close> fails, with the generic
  error \<open>Conversation not found\<close>; \<open>getContextMessages\<close> returns the empty list;
  \<open>updateStatus\<close> and \<open>closeConversation\<close> return no row and leave the database as it is;
  \<open>checkLimits\<close> returns the value \<open>exceeded\<close> with the reason \<open>Conversation not found\<close>.
  \<open>addMessage\<close> takes a conversation id, and on an id that no conversation has it fails with
  the database's foreign-key error.
\<close>

theorem unknown_session_store:
  assumes "canonicalToken sid"
    and "list_all (\<lambda>c. canonicalToken (session_id c)) (ai_conversations d)"
    and "getConversation sid d = None"
    and "\<not> list_ex (\<lambda>c. c_id c = cid) (ai_conversations d)"
  shows "getHistory sid limit d = Inl (Error ''Conversation not found'')
       \<and> getContextMessages sid maxMessages d = []
       \<and> updateStatus sid st staffId now d = (None, d)
       \<and> closeConversation sid now d = (None, d)
       \<and> checkLimits sid now d = Exceeded ''Conversation not found''
       \<and> addMessage cid r txt meta now d
           = Inl (DatabaseError ''ai_messages_conversation_id_fkey'')"
  using assms(3,4) getConversation_None [OF assms(3)]
  by (simp add: getHistory_def getContextMessages_def updateStatus_def closeConversation_def
      checkLimits_def addMessage_def map_unknown Let_def)

lemma sidX_unknown: "getConversation sidX db1 = None"
  by (simp add: getConversation_def db1_def conv1_def sid1_def sidX_def)

theorem unknown_session_store_witness:
  "canonicalToken sidX
   \<and> list_all (\<lambda>c. canonicalToken (session_id c)) (ai_conversations db1)
   \<and> getConversation sidX db1 = None
   \<and> \<not> list_ex (\<lambda>c. c_id c = 9) (ai_conversations db1)
   \<and> getHistory sidX 50 db1 = Inl (Error ''Conversation not found'')
   \<and> getContextMessages sidX 10 db1 = []
   \<and> updateStatus sidX ''closed'' None 2000 db1 = (None, db1)
   \<and> closeConversation sidX 2000 db1 = (None, db1)
   \<and> checkLimits sidX 2000 db1 = Exceeded ''Conversation not found''
   \<and> addMessage 9 ''user'' ''hello'' [] 2000 db1
       = Inl (DatabaseError ''ai_messages_conversation_id_fkey'')"
  using unknown_session_store [of sidX db1 9 50 10 "''closed''" None 2000 "''user''" "''hello''"
      "[]"]
    sidX_unknown tokens_canonical
  by (simp add: db1_def conv1_def)

theorem unknown_session_counterexample:
  "getConversation sidX db1 = None
   \<and> getContextMessages sidX 10 db1 = []
   \<and> updateStatus sidX ''closed'' None 2000 db1 = (None, db1)
   \<and> closeConversation sidX 2000 db1 = (None, db1)"
  by (simp add: getConversation_def getContextMessages_def updateStatus_def
      closeConversation_def db1_def conv1_def sid1_def sidX_def Let_def)

section \<open>Closing a conversation\<close>

lemma closeConversation_row:
  "getConversation sid d = Some c \<Longrightarrow>
   fst (closeConversation sid t d)
     = Some (c\<lparr>status := ''closed'', closed_at := Some t, updated_at := t\<rparr>)"
  by (simp add: closeConversation_def getConversation_def find_map_session Let_def)

lemma closeConversation_get:
  "getConversation sid (snd (closeConversation sid t d)) = fst (closeConversation sid t d)"
  by (simp add: closeConversation_def Let_def)

text \<open>
  C9, as the code has it.  \<open>closeConversation\<close> stamps on every call: closing a known
  conversation at time \<open>t1\<close> and again at time \<open>t2\<close> leaves it with \<open>closed_at = t2\<close> (and
  \<open>updated_at = t2\<close>, status \<open>closed\<close>), every other field as it was before the first call.
  The first call's \<open>closed_at\<close> survives only when both calls carry the same time.
\<close>

theorem close_restamps:
  assumes "getConversation sid d = Some c"
  shows "fst (closeConversation sid t2 (snd (closeConversation sid t1 d)))
           = Some (c\<lparr>status := ''closed'', closed_at := Some t2, updated_at := t2\<rparr>)"
  using closeConversation_row [of sid "snd (closeConversation sid t1 d)" _ t2]
    closeConversation_row [OF assms, of t1] closeConversation_get [of sid t1 d]
  by simp

theorem close_restamps_witness:
  "getConversation sid1 db1 = Some conv1
   \<and> fst (closeConversation sid1 1600 (snd (closeConversation sid1 1500 db1)))
       = Some (conv1\<lparr>status := ''closed'', closed_at := Some 1600, updated_at := 1600\<rparr>)"
  using close_restamps [of sid1 db1 conv1 1600 1500]
  by (simp add: getConversation_def db1_def conv1_def)

theorem close_twice_counterexample:
  "map closed_at (ai_conversations (snd (closeConversation sid1 1500 db1))) = [Some 1500]
   \<and> map closed_at
        (ai_conversations (snd (closeConversation sid1 1600 (snd (closeConversation sid1 1500 db1)))))
       = [Some 1600]"
  by (simp add: closeConversation_def db1_def conv1_def Let_def)

section \<open>Staff identifier and status\<close>

lemma staffInvariant_touch [simp]:
  "staffInvariant (c\<lparr>updated_at := t\<rparr>) = staffInvariant c"
  by (simp add: staffInvariant_def)









lemma closeConversation_staff:
  "map staff_id (ai_conversations (snd (closeConversation sid now d)))
     = map staff_id (ai_conversations d)"
  by (simp add: closeConversation_def Let_def)


















section \<open>Concrete messages and responses\<close>

lemma hello_normal:
  "\<not> isEmergency (detectEmergency ''hello'')"
  "\<not> isUrgent (detectEmergency ''hello'')"
  "\<not> isProhibited (detectProhibitedTopic ''hello'')"
  by (simp_all add: isEmergency_eval isUrgent_eval isProhibited_eval emergencyKeywords_def
      urgentKeywords_def prohibitedTopics_def text_eval)

lemma fever_urgent:
  "\<not> isEmergency (detectEmergency ''I have a high fever'')"
  "isUrgent (detectEmergency ''I have a high fever'')"
  "\<not> isProhibited (detectProhibitedTopic ''I have a high fever'')"
  by (simp_all add: isEmergency_eval isUrgent_eval isProhibited_eval emergencyKeywords_def
      urgentKeywords_def prohibitedTopics_def text_eval)

lemma euthanasia_prohibited:
  "\<not> isEmergency (detectEmergency ''tell me about euthanasia'')"
  "isProhibited (detectProhibitedTopic ''tell me about euthanasia'')"
  by (simp_all add: isEmergency_eval isProhibited_eval emergencyKeywords_def
      prohibitedTopics_def text_eval)

lemma chest_pain_allowed: "\<not> isProhibited (detectProhibitedTopic ''I have chest pain'')"
  by (simp add: isProhibited_eval prohibitedTopics_def text_eval)

lemma rest_clean: "stripControlTokens ''Rest and drink water.'' = ''Rest and drink water.''"
  by (simp add: stripControlTokens_def text_eval)

lemma rest_valid: "isValid (validateResponse ''Rest and drink water.'')"
  by (simp add: isValid_eval restrictedActions_def diagnosisPatterns_def lit_then_def
      articleAndWord_def text_eval)

lemma cold_clean: "stripControlTokens ''You have a cold.'' = ''You have a cold.''"
  by (simp add: stripControlTokens_def text_eval)

lemma cold_invalid: "\<not> isValid (validateResponse ''You have a cold.'')"
  by (simp add: isValid_eval restrictedActions_def diagnosisPatterns_def lit_then_def
      articleAndWord_def text_eval)

lemma overridden_valid: "isValid (validateResponse (overridden msg))"
  by (simp add: overridden_def isValid_eval restrictedActions_def diagnosisPatterns_def
      lit_then_def articleAndWord_def text_eval deflection_def urgentResponse_def)

lemma sysClosed_eval:
  "sysClosed =
     \<lparr>db = \<lparr>ai_conversations =
               [conv1\<lparr>status := ''closed'', closed_at := Some 1500, updated_at := 1500\<rparr>],
            ai_messages = [greeting1], ai_handoff_requests = []\<rparr>,
      inferenceCalls = [], activeSessions = Map.empty\<rparr>"
  by (simp add: sysClosed_def sys1_def db1_def closeConversation_def conv1_def Let_def)

lemmas store_eval = getConversation_def checkLimits_def addMessage_def getContextMessages_def
  messagesOf_def maxMessagesPerSession_def maxSessionDurationHours_def createHandoffRequest_def
  sys1_def db1_def conv1_def greeting1_def

lemmas stream_eval = sendMessageStream_def sendMessageStream_safe_def
  sendMessageStream_generate_def sendMessageStream_finish_def sendMessageStream_fast_def
  generateStreamingResponse_def deliverAll_def awaited_def sendEvent_def resEnd_def newTurn_def
  onError_def unregister_def cancelGeneration_def onClose_def finish_def quiet_def cancelAt_def
  disconnectAt_def

lemmas whole_eval = sendMessage_def sendMessage_safe_def sendMessage_generate_def
  sendMessage_fast_def generateResponse_def

section \<open>The checks on the conversation\<close>

text \<open>
  A turn on a session that no conversation has, or on a conversation that is staff-taken,
  is rejected: \<open>sendMessage\<close> leaves the state as it is; \<open>sendMessageStream\<close> leaves the
  database as it is, makes no call of the inference client and writes at most the error
  event.
\<close>

lemma sendMessage_absent:
  "getConversation (sessionId req) (db s) = None \<Longrightarrow>
   sendMessage cfg eng now req s = (Fail 404 ''NOT_FOUND'', s)"
  by (simp add: sendMessage_def)

lemma sendMessage_staff_taken:
  "getConversation (sessionId req) (db s) = Some c \<Longrightarrow> status c = ''staff-taken'' \<Longrightarrow>
   sendMessage cfg eng now req s = (Fail 403 ''FORBIDDEN'', s)"
  by (simp add: sendMessage_def)

lemma sendMessageStream_absent:
  "getConversation (sessionId req) (db s) = None \<Longrightarrow>
   db (snd (sendMessageStream cfg seng now req sched s)) = db s
   \<and> inferenceCalls (snd (sendMessageStream cfg seng now req sched s)) = inferenceCalls s
   \<and> set (written (fst (sendMessageStream cfg seng now req sched s)))
       \<subseteq> {ErrorEvent ''NOT_FOUND''}"
  using written_sendEvent [of "ErrorEvent ''NOT_FOUND''"
      "fst (deliverAll (sessionId req) (sched 1)
             (newTurn, s\<lparr>activeSessions :=
                (activeSessions s)(sessionId req \<mapsto> \<lparr>sd_isCancelled = False\<rparr>)\<rparr>))"]
  by (simp add: sendMessageStream_def Let_def resEnd_def newTurn_def)

lemma sendMessageStream_staff_taken:
  "getConversation (sessionId req) (db s) = Some c \<Longrightarrow> status c = ''staff-taken'' \<Longrightarrow>
   db (snd (sendMessageStream cfg seng now req sched s)) = db s
   \<and> inferenceCalls (snd (sendMessageStream cfg seng now req sched s)) = inferenceCalls s
   \<and> set (written (fst (sendMessageStream cfg seng now req sched s)))
       \<subseteq> {ErrorEvent ''FORBIDDEN''}"
  using written_sendEvent [of "ErrorEvent ''FORBIDDEN''"
      "fst (deliverAll (sessionId req) (sched 1)
             (newTurn, s\<lparr>activeSessions :=
                (activeSessions s)(sessionId req \<mapsto> \<lparr>sd_isCancelled = False\<rparr>)\<rparr>))"]
  by (simp add: sendMessageStream_def Let_def resEnd_def newTurn_def)


text \<open>
  C3, at a closed conversation.  The conversation of \<open>sysClosed\<close> has status \<open>closed\<close>; a
  turn on it in safety mode is accepted in both variants: \<open>sendMessage\<close> stores the user's
  message, calls the inference client once and returns the generated text, and
  \<open>sendMessageStream\<close> calls the inference client once and ends with a \<open>done\<close> event
  carrying the generated text.
\<close>

theorem closed_conversation_accepts_turn:
  "map status (ai_conversations (db sysClosed)) = [''closed'']
   \<and> fst (sendMessage safeCfg engRest 2000 (patientMessage sid1 ''hello'') sysClosed)
       = Message \<lparr>p_sessionId = sid1, p_message = ''Rest and drink water.'',
                  p_role = ''assistant'',
                  p_metadata = [(''tokens'', JNum 5), (''duration'', JNum 40)]\<rparr>
   \<and> length (inferenceCalls
         (snd (sendMessage safeCfg engRest 2000 (patientMessage sid1 ''hello'') sysClosed))) = 1
   \<and> map content (ai_messages (db
         (snd (sendMessage safeCfg engRest 2000 (patientMessage sid1 ''hello'') sysClosed))))
       = [''Hello! How can I help you today?'', ''hello'', ''Rest and drink water.'']
   \<and> doneMessages (written
         (fst (sendMessageStream safeCfg sengRest 2000 (patientMessage sid1 ''hello'') quiet
                 sysClosed)))
       = [''Rest and drink water.'']
   \<and> length (inferenceCalls
         (snd (sendMessageStream safeCfg sengRest 2000 (patientMessage sid1 ''hello'') quiet
                 sysClosed))) = 1"
  by (simp add: sysClosed_eval whole_eval stream_eval store_eval safeCfg_def hello_normal
      engRest_def sengRest_def rest_clean rest_valid Let_def)

section \<open>The map of active sessions\<close>

text \<open>
  Under every engine and every schedule: a safety-mode turn that reaches generation ends
  with its entry removed, and an emergency short-circuit ends with its entry in place.
\<close>

lemma finish_unregisters:
  "activeSessions (snd (sendMessageStream_finish cfg seng now req sched c prompt pre ts))
     (sessionId req) = None"
  by (auto simp: sendMessageStream_finish_def Let_def onError_def unregister_def
      split: prod.splits sum.splits)

lemma generation_entry_removed:
  assumes "safetyMode cfg"
    and "getConversation sid (db s) = Some c"
    and "status c \<noteq> ''staff-taken''"
    and "\<not> exceeded (checkLimits sid now (db s))"
    and "\<not> isEmergency (detectEmergency msg)"
    and "\<not> isProhibited (detectProhibitedTopic msg)"
  shows "activeSessions (snd (sendMessageStream cfg seng now (patientMessage sid msg) sched s)) sid
           = None"
  using assms finish_unregisters [of cfg seng now "patientMessage sid msg" sched c]
  by (simp add: sendMessageStream_def sendMessageStream_safe_def
      sendMessageStream_generate_def addMessage_known getConversation_known
      detectEmergency_urgent_response Let_def)

lemma emergency_entry_stays:
  assumes "safetyMode cfg"
    and "getConversation sid (db s) = Some c"
    and "status c \<noteq> ''staff-taken''"
    and "\<not> exceeded (checkLimits sid now (db s))"
    and "isEmergency (detectEmergency msg)"
  shows "activeSessions (snd (sendMessageStream cfg seng now (patientMessage sid msg) sched s)) sid
           \<noteq> None"
proof -
  let ?ts0 = "(newTurn, s\<lparr>activeSessions := (activeSessions s)(sid \<mapsto> \<lparr>sd_isCancelled = False\<rparr>)\<rparr>)"
  have "inFlight sid (awaited sid (sched 5) d5 (awaited sid (sched 4) d4
          (awaited sid (sched 3) d3 (deliverAll sid (sched 2) (deliverAll sid (sched 1) ?ts0)))))"
    for d3 d4 d5
    by (intro awaited_inFlight deliverAll_inFlight newTurn_inFlight)
  then show ?thesis
    using assms
    by (simp add: sendMessageStream_def sendMessageStream_safe_def addMessage_known
        getConversation_known detectEmergency_response known_touch createHandoffRequest_known
        Let_def inFlight_def)
qed

text \<open>
  C7, at four streamed turns on \<open>sys1\<close>, none of them disturbed by an event.  After an
  emergency short-circuit, after a prohibited-topic refusal, after a fast-mode turn and
  after a turn rejected for an unknown session, the entry the turn registered in
  \<open>activeSessions\<close> is still there; after a safety-mode turn that generated it is gone.
\<close>

theorem short_circuit_leaves_registry_entry:
  "activeSessions
     (snd (sendMessageStream safeCfg sengRest 2000 (patientMessage sid1 ''I have chest pain'')
             quiet sys1)) sid1 = Some \<lparr>sd_isCancelled = False\<rparr>
   \<and> activeSessions
     (snd (sendMessageStream safeCfg sengRest 2000
             (patientMessage sid1 ''tell me about euthanasia'') quiet sys1))
       sid1 = Some \<lparr>sd_isCancelled = False\<rparr>
   \<and> activeSessions
     (snd (sendMessageStream fastCfg sengRest 2000 (patientMessage sid1 ''hello'') quiet sys1))
       sid1 = Some \<lparr>sd_isCancelled = False\<rparr>
   \<and> activeSessions
     (snd (sendMessageStream safeCfg sengRest 2000 (patientMessage sidX ''hello'') quiet sys1))
       sidX = Some \<lparr>sd_isCancelled = False\<rparr>
   \<and> activeSessions
     (snd (sendMessageStream safeCfg sengRest 2000 (patientMessage sid1 ''hello'') quiet sys1))
       sid1 = None"
  by (simp add: stream_eval store_eval safeCfg_def fastCfg_def hello_normal
      chest_pain_emergency detectEmergency_response chest_pain_allowed euthanasia_prohibited
      detectProhibited_refusal sengRest_def rest_clean rest_valid Let_def sid1_def sidX_def)

section \<open>Fast mode\<close>











section \<open>A generated response that fails validation\<close>

lemma doneMessages_append [simp]:
  "doneMessages (xs @ ys) = doneMessages xs @ doneMessages ys"
  by (induction xs rule: doneMessages.induct) simp_all

lemma doneMessages_sendEvent_if:
  "doneMessages (written (sendEvent ev t))
     = (if \<not> isCancelled t \<and> \<not> writableEnded t
        then doneMessages (written t) @ doneMessages [ev]
        else doneMessages (written t))"
  by (simp add: sendEvent_def)

lemma doneMessages_sendEvent_other [simp]:
  "doneMessages [ev] = [] \<Longrightarrow> doneMessages (written (sendEvent ev t)) = doneMessages (written t)"
  by (simp add: sendEvent_def)

lemma streamChunks_done [simp]:
  "doneMessages (written (fst (snd (streamChunks sid cs fin el acc n full ts))))
     = doneMessages (written (fst ts))"
  by (induction sid cs fin el acc n full ts rule: streamChunks.induct) (simp_all add: Let_def)

lemma generateStreamingResponse_done [simp]:
  "doneMessages (written (fst (snd (generateStreamingResponse seng sid prompt full ts))))
     = doneMessages (written (fst ts))"
  by (simp add: generateStreamingResponse_def Let_def split: option.splits)

lemma resEnd_written [simp]: "written (resEnd t) = written t"
  by (simp add: resEnd_def)

lemma onError_done [simp]:
  "doneMessages (written (fst (onError sid e ts))) = doneMessages (written (fst ts))"
  by (simp add: onError_def Let_def)

lemma finish_stream_override:
  assumes k: "list_ex (\<lambda>c'. c_id c' = c_id c) (ai_conversations (db (snd ts)))"
    and e: "seng prompt = Some st"
    and v: "\<not> isValid (validateResponse (stripControlTokens (tokensOf (chunks st))))"
    and w: "doneMessages (written (fst ts)) = []"
  shows "(ai_messages (db (snd (sendMessageStream_finish cfg seng now req sched c prompt pre ts)))
            = ai_messages (db (snd ts))
          \<or> (\<exists>a. ai_messages
                    (db (snd (sendMessageStream_finish cfg seng now req sched c prompt pre ts)))
                    = ai_messages (db (snd ts)) @ [a]
                \<and> conversation_id a = c_id c \<and> role a = ''assistant'' \<and> content a = deflection
                \<and> map_of (metadata a) ''safetyOverride'' = Some (JBool True)))
       \<and> set (doneMessages
                (written (fst (sendMessageStream_finish cfg seng now req sched c prompt pre ts))))
           \<subseteq> {deflection}"
proof -
  obtain res ts6 where g:
    "generateStreamingResponse seng (sessionId req) prompt pre ts = (res, ts6)"
    by (cases "generateStreamingResponse seng (sessionId req) prompt pre ts") auto
  have st: "db (snd ts6) = db (snd ts)"
    using generateStreamingResponse_state [OF g] by simp
  have d: "doneMessages (written (fst ts6)) = []"
    using generateStreamingResponse_done [of seng "sessionId req" prompt pre ts] g w by simp
  show ?thesis
  proof (cases res)
    case (Inl e)
    with g st d show ?thesis
      by (simp add: sendMessageStream_finish_def Let_def)
  next
    case (Inr ai)
    with g e have c: "ai_content ai = stripControlTokens (tokensOf (chunks st))"
      using generateStreamingResponse_result by fastforce
    show ?thesis
      using g Inr st c v d
      by (simp add: sendMessageStream_finish_def Let_def addMessage_known [OF k] messageRow_def
          unregister_def doneMessages_sendEvent_if)
  qed
qed

lemma sendMessageStream_override:
  assumes "safetyMode cfg"
    and "getConversation sid (db s) = Some c"
    and "status c \<noteq> ''staff-taken''"
    and "\<not> exceeded (checkLimits sid now (db s))"
    and "\<not> isEmergency (detectEmergency msg)"
    and "\<not> isProhibited (detectProhibitedTopic msg)"
    and e: "seng (formatPrompt cfg (getContextMessages sid 10 (afterUser c msg now s))) = Some st"
    and v: "\<not> isValid (validateResponse (stripControlTokens (tokensOf (chunks st))))"
  shows "(ai_messages (db (snd (sendMessageStream cfg seng now (patientMessage sid msg) sched s)))
            = ai_messages (db s) @ [userRow c msg now s]
          \<or> (\<exists>a. ai_messages
                    (db (snd (sendMessageStream cfg seng now (patientMessage sid msg) sched s)))
                    = ai_messages (db s) @ [userRow c msg now s, a]
                \<and> conversation_id a = c_id c \<and> role a = ''assistant'' \<and> content a = deflection
                \<and> map_of (metadata a) ''safetyOverride'' = Some (JBool True)))
       \<and> set (doneMessages
                (written (fst (sendMessageStream cfg seng now (patientMessage sid msg) sched s))))
           \<subseteq> {deflection}"
proof -
  let ?req = "patientMessage sid msg"
  let ?prompt = "formatPrompt cfg (getContextMessages sid 10 (afterUser c msg now s))"
  let ?ts3 = "awaited sid (sched 3) (afterUser c msg now s)
                (deliverAll sid (sched 2)
                  (deliverAll sid (sched 1)
                    (newTurn,
                     s\<lparr>activeSessions := (activeSessions s)(sid \<mapsto> \<lparr>sd_isCancelled = False\<rparr>)\<rparr>)))"
  let ?ts4 = "deliverAll sid (sched 4) ?ts3"
  let ?ts5 = "(sendEvent (Start sid) (fst ?ts4), snd ?ts4)"
  let ?pre = "message urgentResponse @ ''\<newline>\<newline>''"
  let ?ts5u = "(sendEvent (Token ?pre ?pre) (fst ?ts5), snd ?ts5)"
  have k: "list_ex (\<lambda>c'. c_id c' = c_id c) (ai_conversations (db (snd ?ts5)))"
    "list_ex (\<lambda>c'. c_id c' = c_id c) (ai_conversations (db (snd ?ts5u)))"
    using assms(2) by (simp_all add: afterUser_def known_touch getConversation_known)
  have w: "doneMessages (written (fst ?ts5)) = []" "doneMessages (written (fst ?ts5u)) = []"
    by (simp_all add: newTurn_def)
  have m: "ai_messages (db (snd ?ts5)) = ai_messages (db s) @ [userRow c msg now s]"
    "ai_messages (db (snd ?ts5u)) = ai_messages (db s) @ [userRow c msg now s]"
    by (simp_all add: afterUser_def)
  have r: "sendMessageStream cfg seng now ?req sched s
             = (if isUrgent (detectEmergency msg)
                then sendMessageStream_finish cfg seng now ?req sched c ?prompt ?pre ?ts5u
                else sendMessageStream_finish cfg seng now ?req sched c ?prompt [] ?ts5)"
    using assms(1-6)
    by (simp add: sendMessageStream_def sendMessageStream_safe_def
        sendMessageStream_generate_def addMessage_known getConversation_known afterUser_def
        userRow_def detectEmergency_urgent_response Let_def)
  show ?thesis
  proof (cases "isUrgent (detectEmergency msg)")
    case True
    show ?thesis
      using finish_stream_override [of c ?ts5u seng ?prompt st cfg now ?req sched ?pre,
          OF k(2) e v w(2)] True
      unfolding r m by simp
  next
    case False
    show ?thesis
      using finish_stream_override [of c ?ts5 seng ?prompt st cfg now ?req sched "[]",
          OF k(1) e v w(1)] False
      unfolding r m by simp
  qed
qed

lemma sendMessage_override:
  assumes "safetyMode cfg"
    and "getConversation sid (db s) = Some c"
    and "status c \<noteq> ''staff-taken''"
    and "\<not> exceeded (checkLimits sid now (db s))"
    and "\<not> isEmergency (detectEmergency msg)"
    and "\<not> isProhibited (detectProhibitedTopic msg)"
    and e: "eng (formatPrompt cfg (getContextMessages sid 10 (afterUser c msg now s))) = Some body"
    and n: "c_content body \<noteq> []"
    and v: "\<not> isValid (validateResponse (stripControlTokens (c_content body)))"
  shows "fst (sendMessage cfg eng now (patientMessage sid msg) s)
           = Message \<lparr>p_sessionId = sid, p_message = overridden msg, p_role = ''assistant'',
                      p_metadata = [(''tokens'', JNum (tokens_predicted body)),
                                    (''duration'', JNum (elapsed body)),
                                    (''safetyOverride'', JBool True)]
                                   @ (if isUrgent (detectEmergency msg)
                                      then [(''urgentGuidance'', JBool True)] else [])\<rparr>
       \<and> (\<exists>a. ai_messages (db (snd (sendMessage cfg eng now (patientMessage sid msg) s)))
                = ai_messages (db s) @ [userRow c msg now s, a]
             \<and> conversation_id a = c_id c \<and> role a = ''assistant''
             \<and> content a = overridden msg
             \<and> map_of (metadata a) ''safetyOverride'' = Some (JBool True))
       \<and> overridden msg \<noteq> stripControlTokens (c_content body)"
proof -
  have "overridden msg \<noteq> stripControlTokens (c_content body)"
    using v overridden_valid [of msg] by auto
  then show ?thesis
    using assms
    by (simp add: sendMessage_def sendMessage_safe_def sendMessage_generate_def
        addMessage_known getConversation_known known_touch afterUser_def userRow_def
        generateResponse_def detectEmergency_urgent_response overridden_def messageRow_def
        Let_def)
qed

lemma deflection_not_invalid:
  "\<not> isValid (validateResponse txt) \<Longrightarrow> deflection \<noteq> txt"
  using overridden_valid [of "''hello''"] hello_normal by (auto simp: overridden_def)

lemma empty_valid: "isValid (validateResponse [])"
  by (simp add: isValid_eval restrictedActions_def diagnosisPatterns_def lit_then_def
      articleAndWord_def text_eval)

lemma invalid_not_empty:
  "\<not> isValid (validateResponse (stripControlTokens txt)) \<Longrightarrow> stripControlTokens txt \<noteq> []"
  using empty_valid by auto

lemma finish_override_undisturbed:
  assumes k: "list_ex (\<lambda>c'. c_id c' = c_id c) (ai_conversations (db s'))"
    and e: "seng prompt = Some st"
    and i: "\<not> interrupted (chunks st)"
    and f: "ending st \<noteq> StreamError"
    and v: "\<not> isValid (validateResponse (stripControlTokens (tokensOf (chunks st))))"
    and t: "\<not> isCancelled t" "\<not> writableEnded t" "\<not> aborted t"
  shows "written (fst (sendMessageStream_finish cfg seng now (patientMessage sid msg) quiet c
                         prompt pre (t, s')))
           = written t @ tokenEvents pre (chunks st)
             @ [Done \<lparr>p_sessionId = sid, p_message = deflection, p_role = ''assistant'',
                      p_metadata = overrideMetadata st pre msg\<rparr>]
       \<and> ai_messages (db (snd (sendMessageStream_finish cfg seng now (patientMessage sid msg)
                                  quiet c prompt pre (t, s'))))
           = ai_messages (db s')
             @ [messageRow (db s') (c_id c) ''assistant'' deflection
                  (overrideMetadata st pre msg) now]"
proof -
  have g: "generateStreamingResponse seng sid prompt pre (t, s')
           = (Inr \<lparr>ai_content = stripControlTokens (tokensOf (chunks st)),
                   ai_tokens = length (tokenEvents pre (chunks st)),
                   ai_duration = s_elapsed st, ai_model = modelName\<rparr>,
              t\<lparr>written := written t @ tokenEvents pre (chunks st)\<rparr>,
              s'\<lparr>inferenceCalls := inferenceCalls s' @ [prompt]\<rparr>)"
    using generateStreamingResponse_undisturbed [of seng prompt st t sid pre s'] e i t
      finish_resolves [OF f, of "tokensOf (chunks st)"] invalid_not_empty [OF v]
    by simp
  show ?thesis
    using v t
    by (simp add: sendMessageStream_finish_def Let_def g quiet_deliverAll quiet_awaited
        addMessage_known [OF k] sendEvent_def resEnd_def unregister_def overrideMetadata_def)
qed

lemma sendMessageStream_override_undisturbed:
  assumes "safetyMode cfg"
    and "getConversation sid (db s) = Some c"
    and "status c \<noteq> ''staff-taken''"
    and "\<not> exceeded (checkLimits sid now (db s))"
    and "\<not> isEmergency (detectEmergency msg)"
    and "\<not> isProhibited (detectProhibitedTopic msg)"
    and e: "seng (formatPrompt cfg (getContextMessages sid 10 (afterUser c msg now s))) = Some st"
    and v: "\<not> isValid (validateResponse (stripControlTokens (tokensOf (chunks st))))"
    and i: "\<not> interrupted (chunks st)"
    and f: "ending st \<noteq> StreamError"
  shows "written (fst (sendMessageStream cfg seng now (patientMessage sid msg) quiet s))
           = Start sid
             # (if isUrgent (detectEmergency msg)
                then [Token (urgentPrefix msg) (urgentPrefix msg)] else [])
             @ tokenEvents (urgentPrefix msg) (chunks st)
             @ [Done \<lparr>p_sessionId = sid, p_message = deflection, p_role = ''assistant'',
                      p_metadata = overrideMetadata st (urgentPrefix msg) msg\<rparr>]
       \<and> ai_messages (db (snd (sendMessageStream cfg seng now (patientMessage sid msg) quiet s)))
           = ai_messages (db s)
             @ [userRow c msg now s,
                messageRow (afterUser c msg now s) (c_id c) ''assistant'' deflection
                  (overrideMetadata st (urgentPrefix msg) msg) now]"
proof -
  let ?req = "patientMessage sid msg"
  let ?prompt = "formatPrompt cfg (getContextMessages sid 10 (afterUser c msg now s))"
  let ?s3 = "s\<lparr>activeSessions := (activeSessions s)(sid \<mapsto> \<lparr>sd_isCancelled = False\<rparr>),
               db := afterUser c msg now s\<rparr>"
  let ?pre = "message urgentResponse @ ''\<newline>\<newline>''"
  let ?t5 = "\<lparr>isCancelled = False, aborted = False, writableEnded = False,
               written = [Start sid]\<rparr>"
  let ?t5u = "\<lparr>isCancelled = False, aborted = False, writableEnded = False,
                written = [Start sid, Token ?pre ?pre]\<rparr>"
  have k: "list_ex (\<lambda>c'. c_id c' = c_id c) (ai_conversations (db ?s3))"
    using assms(2) by (simp add: afterUser_def known_touch getConversation_known)
  have r: "sendMessageStream cfg seng now ?req quiet s
             = (if isUrgent (detectEmergency msg)
                then sendMessageStream_finish cfg seng now ?req quiet c ?prompt ?pre (?t5u, ?s3)
                else sendMessageStream_finish cfg seng now ?req quiet c ?prompt [] (?t5, ?s3))"
    using assms(1-6)
    by (simp add: sendMessageStream_def sendMessageStream_safe_def
        sendMessageStream_generate_def addMessage_known getConversation_known afterUser_def
        userRow_def detectEmergency_urgent_response Let_def quiet_deliverAll quiet_awaited
        sendEvent_def newTurn_def)
  show ?thesis
  proof (cases "isUrgent (detectEmergency msg)")
    case True
    then have p: "urgentPrefix msg = ?pre"
      by (simp add: urgentPrefix_def)
    show ?thesis
      using finish_override_undisturbed [of c ?s3 seng ?prompt st ?t5u cfg now sid msg ?pre]
        k e v i f True
      unfolding r p by (simp add: afterUser_messages)
  next
    case False
    then have p: "urgentPrefix msg = []"
      by (simp add: urgentPrefix_def)
    show ?thesis
      using finish_override_undisturbed [of c ?s3 seng ?prompt st ?t5 cfg now sid msg "[]"]
        k e v i f False
      unfolding r p by (simp add: afterUser_messages)
  qed
qed

text \<open>
  C2, at every safety-mode turn that reaches generation (the conversation passes the
  checks, the message is neither an emergency nor prohibited) and whose generated text fails
  \<open>validateResponse\<close>.
  \<^item> \<open>sendMessage\<close> stores and returns the canned deflection, after the urgent advisory when
    the message was classified urgent, with \<open>safetyOverride\<close> set in the metadata; the
    generated text is not shown.
  \<^item> \<open>sendMessageStream\<close>, under every schedule, stores no assistant message or one whose
    content is the canned deflection with \<open>safetyOverride\<close> set, and every \<open>done\<close> event it
    writes carries the canned deflection.
  \<^item> \<open>sendMessageStream\<close> undisturbed (the schedule \<open>quiet\<close>, no event between the fragments, a
    stream that does not end in an error) writes \<open>start\<close>, the advisory of an urgent message,
    one \<open>token\<close> event for each fragment of the generated text, and \<open>done\<close> with the canned
    deflection, and stores the canned deflection: the \<open>token\<close> events, written while the
    engine streams and before the validation, carry the whole of the rejected text.
\<close>

theorem rejected_text_streamed_before_override:
  assumes "safetyMode cfg"
    and "getConversation sid (db s) = Some c"
    and "status c \<noteq> ''staff-taken''"
    and "\<not> exceeded (checkLimits sid now (db s))"
    and "\<not> isEmergency (detectEmergency msg)"
    and "\<not> isProhibited (detectProhibitedTopic msg)"
    and "eng (formatPrompt cfg (getContextMessages sid 10 (afterUser c msg now s))) = Some body"
    and "c_content body \<noteq> []"
    and "\<not> isValid (validateResponse (stripControlTokens (c_content body)))"
    and "seng (formatPrompt cfg (getContextMessages sid 10 (afterUser c msg now s))) = Some st"
    and "\<not> isValid (validateResponse (stripControlTokens (tokensOf (chunks st))))"
  shows "fst (sendMessage cfg eng now (patientMessage sid msg) s)
           = Message \<lparr>p_sessionId = sid, p_message = overridden msg, p_role = ''assistant'',
                      p_metadata = [(''tokens'', JNum (tokens_predicted body)),
                                    (''duration'', JNum (elapsed body)),
                                    (''safetyOverride'', JBool True)]
                                   @ (if isUrgent (detectEmergency msg)
                                      then [(''urgentGuidance'', JBool True)] else [])\<rparr>
       \<and> (\<exists>a. ai_messages (db (snd (sendMessage cfg eng now (patientMessage sid msg) s)))
                = ai_messages (db s) @ [userRow c msg now s, a]
             \<and> conversation_id a = c_id c \<and> role a = ''assistant''
             \<and> content a = overridden msg
             \<and> map_of (metadata a) ''safetyOverride'' = Some (JBool True))
       \<and> overridden msg = urgentPrefix msg @ deflection
       \<and> overridden msg \<noteq> stripControlTokens (c_content body)
       \<and> (ai_messages (db (snd (sendMessageStream cfg seng now (patientMessage sid msg) sched s)))
            = ai_messages (db s) @ [userRow c msg now s]
          \<or> (\<exists>a. ai_messages
                    (db (snd (sendMessageStream cfg seng now (patientMessage sid msg) sched s)))
                    = ai_messages (db s) @ [userRow c msg now s, a]
                \<and> conversation_id a = c_id c \<and> role a = ''assistant'' \<and> content a = deflection
                \<and> map_of (metadata a) ''safetyOverride'' = Some (JBool True)))
       \<and> set (doneMessages
                (written (fst (sendMessageStream cfg seng now (patientMessage sid msg) sched s))))
           \<subseteq> {deflection}
       \<and> deflection \<noteq> stripControlTokens (tokensOf (chunks st))
       \<and> (\<not> interrupted (chunks st) \<and> ending st \<noteq> StreamError \<longrightarrow>
            written (fst (sendMessageStream cfg seng now (patientMessage sid msg) quiet s))
              = Start sid
                # (if isUrgent (detectEmergency msg)
                   then [Token (urgentPrefix msg) (urgentPrefix msg)] else [])
                @ tokenEvents (urgentPrefix msg) (chunks st)
                @ [Done \<lparr>p_sessionId = sid, p_message = deflection, p_role = ''assistant'',
                         p_metadata = overrideMetadata st (urgentPrefix msg) msg\<rparr>]
          \<and> tokenText
                (written (fst (sendMessageStream cfg seng now (patientMessage sid msg) quiet s)))
              = urgentPrefix msg @ tokensOf (chunks st)
          \<and> ai_messages
                (db (snd (sendMessageStream cfg seng now (patientMessage sid msg) quiet s)))
              = ai_messages (db s)
                @ [userRow c msg now s,
                   messageRow (afterUser c msg now s) (c_id c) ''assistant'' deflection
                     (overrideMetadata st (urgentPrefix msg) msg) now]
          \<and> map_of (overrideMetadata st (urgentPrefix msg) msg) ''safetyOverride''
              = Some (JBool True))"
proof -
  have p: "overridden msg = urgentPrefix msg @ deflection"
    by (simp add: overridden_def urgentPrefix_def)
  have o: "map_of (overrideMetadata st (urgentPrefix msg) msg) ''safetyOverride''
           = Some (JBool True)"
    by (simp add: overrideMetadata_def)
  have u: "written (fst (sendMessageStream cfg seng now (patientMessage sid msg) quiet s))
             = Start sid
               # (if isUrgent (detectEmergency msg)
                  then [Token (urgentPrefix msg) (urgentPrefix msg)] else [])
               @ tokenEvents (urgentPrefix msg) (chunks st)
               @ [Done \<lparr>p_sessionId = sid, p_message = deflection, p_role = ''assistant'',
                        p_metadata = overrideMetadata st (urgentPrefix msg) msg\<rparr>]
           \<and> tokenText
               (written (fst (sendMessageStream cfg seng now (patientMessage sid msg) quiet s)))
             = urgentPrefix msg @ tokensOf (chunks st)
           \<and> ai_messages
               (db (snd (sendMessageStream cfg seng now (patientMessage sid msg) quiet s)))
             = ai_messages (db s)
               @ [userRow c msg now s,
                  messageRow (afterUser c msg now s) (c_id c) ''assistant'' deflection
                    (overrideMetadata st (urgentPrefix msg) msg) now]"
    if i: "\<not> interrupted (chunks st)" and f: "ending st \<noteq> StreamError"
  proof -
    note streamed = sendMessageStream_override_undisturbed [of cfg sid s c now msg seng st]
    have w: "written (fst (sendMessageStream cfg seng now (patientMessage sid msg) quiet s))
             = Start sid
               # (if isUrgent (detectEmergency msg)
                  then [Token (urgentPrefix msg) (urgentPrefix msg)] else [])
               @ tokenEvents (urgentPrefix msg) (chunks st)
               @ [Done \<lparr>p_sessionId = sid, p_message = deflection, p_role = ''assistant'',
                        p_metadata = overrideMetadata st (urgentPrefix msg) msg\<rparr>]"
      using streamed assms i f by blast
    have m: "ai_messages
               (db (snd (sendMessageStream cfg seng now (patientMessage sid msg) quiet s)))
             = ai_messages (db s)
               @ [userRow c msg now s,
                  messageRow (afterUser c msg now s) (c_id c) ''assistant'' deflection
                    (overrideMetadata st (urgentPrefix msg) msg) now]"
      using streamed assms i f by blast
    have t: "tokenText
               (written (fst (sendMessageStream cfg seng now (patientMessage sid msg) quiet s)))
             = urgentPrefix msg @ tokensOf (chunks st)"
      unfolding w by (simp add: tokenText_append tokenText_tokenEvents urgentPrefix_def)
    show ?thesis
      using w t m by simp
  qed
  note whole = sendMessage_override [of cfg sid s c now msg eng body, OF assms(1-9)]
  note streamed = sendMessageStream_override [of cfg sid s c now msg seng st sched,
      OF assms(1-6) assms(10) assms(11)]
  note differs = deflection_not_invalid [OF assms(11)]
  show ?thesis
    using p o u whole streamed differs by blast
qed

theorem rejected_text_streamed_witness:
  "safetyMode safeCfg \<and> getConversation sid1 (db sys1) = Some conv1
   \<and> status conv1 \<noteq> ''staff-taken'' \<and> \<not> exceeded (checkLimits sid1 2000 (db sys1))
   \<and> \<not> isEmergency (detectEmergency ''hello'')
   \<and> \<not> isProhibited (detectProhibitedTopic ''hello'')
   \<and> \<not> isValid (validateResponse ''You have a cold.'')
   \<and> \<not> interrupted [Tok ''You have'', Tok '' a cold.'']
   \<and> written (fst (sendMessageStream safeCfg sengCold 2000 (patientMessage sid1 ''hello'') quiet
                     sys1))
       = [Start sid1, Token ''You have'' ''You have'', Token '' a cold.'' ''You have a cold.'',
          Done \<lparr>p_sessionId = sid1, p_message = deflection, p_role = ''assistant'',
                p_metadata = [(''tokens'', JNum 2), (''duration'', JNum 40),
                              (''model'', JStr modelName), (''validated'', JBool False),
                              (''streamed'', JBool True), (''safetyOverride'', JBool True),
                              (''validationFailed'', JBool True)]\<rparr>]
   \<and> tokenText (written (fst (sendMessageStream safeCfg sengCold 2000
                                 (patientMessage sid1 ''hello'') quiet sys1)))
       = ''You have a cold.''
   \<and> map content (ai_messages (db
         (snd (sendMessageStream safeCfg sengCold 2000 (patientMessage sid1 ''hello'') quiet
                 sys1))))
       = [''Hello! How can I help you today?'', ''hello'', deflection]
   \<and> fst (sendMessage safeCfg engCold 2000 (patientMessage sid1 ''hello'') sys1)
       = Message \<lparr>p_sessionId = sid1, p_message = deflection, p_role = ''assistant'',
                  p_metadata = [(''tokens'', JNum 5), (''duration'', JNum 40),
                                (''safetyOverride'', JBool True)]\<rparr>"
  using rejected_text_streamed_before_override [where cfg = safeCfg and sid = sid1 and s = sys1
      and c = conv1 and now = 2000 and msg = "''hello''" and eng = engCold
      and body = "\<lparr>c_content = ''You have a cold.'', tokens_predicted = 5, elapsed = 40\<rparr>"
      and seng = sengCold and sched = quiet
      and st = "\<lparr>chunks = [Tok ''You have'', Tok '' a cold.''], ending = Stop, s_elapsed = 40\<rparr>"]
    sys1_simps hello_normal cold_invalid
  by (simp add: safeCfg_def engCold_def sengCold_def overridden_def cold_clean urgentPrefix_def
      overrideMetadata_def interrupted_def userRow_def messageRow_def sys1_def db1_def
      greeting1_def)

section \<open>The urgent advisory\<close>

text \<open>
  C6, at the urgent message \<open>I have a high fever\<close> on \<open>sys1\<close> in safety mode, with an engine
  whose answer fails validation.  The streamed turn first writes the advisory as a \<open>token\<close>
  event of its own, but the content it stores, and carries in its \<open>done\<close> event, is the
  canned deflection alone: the override replaces the content the advisory had been put in
  front of.  \<open>sendMessage\<close> on the same input stores the advisory, a blank line and the
  deflection, and the streamed turn keeps the advisory when the answer passes validation.
\<close>

theorem urgent_advisory_lost_on_stream_override:
  "isUrgent (detectEmergency ''I have a high fever'')
   \<and> \<not> isValid (validateResponse ''You have a cold.'')
   \<and> map content (ai_messages (db
         (snd (sendMessageStream safeCfg sengCold 2000
                 (patientMessage sid1 ''I have a high fever'') quiet sys1))))
       = [''Hello! How can I help you today?'', ''I have a high fever'', deflection]
   \<and> doneMessages (written
         (fst (sendMessageStream safeCfg sengCold 2000
                 (patientMessage sid1 ''I have a high fever'') quiet sys1)))
       = [deflection]
   \<and> take 2 (written
         (fst (sendMessageStream safeCfg sengCold 2000
                 (patientMessage sid1 ''I have a high fever'') quiet sys1)))
       = [Start sid1,
          Token (message urgentResponse @ ''\<newline>\<newline>'')
                (message urgentResponse @ ''\<newline>\<newline>'')]
   \<and> map content (ai_messages (db
         (snd (sendMessage safeCfg engCold 2000 (patientMessage sid1 ''I have a high fever'')
                 sys1))))
       = [''Hello! How can I help you today?'', ''I have a high fever'',
          message urgentResponse @ ''\<newline>\<newline>'' @ deflection]
   \<and> map content (ai_messages (db
         (snd (sendMessageStream safeCfg sengRest 2000
                 (patientMessage sid1 ''I have a high fever'') quiet sys1))))
       = [''Hello! How can I help you today?'', ''I have a high fever'',
          message urgentResponse @ ''\<newline>\<newline>'' @ ''Rest and drink water.'']"
  by (simp add: whole_eval stream_eval store_eval safeCfg_def fever_urgent
      detectEmergency_urgent_response engCold_def sengCold_def sengRest_def cold_clean
      cold_invalid rest_clean rest_valid Let_def)

section \<open>Cancellation\<close>

text \<open>
  A cancel call or a disconnect handled while the engine streams ends the turn, under every
  schedule: no \<open>done\<close> event is written and no assistant message is stored
  (\<open>interrupted_generation\<close>).  At a concrete stream (\<open>cancel_during_generation\<close>): no
  \<open>token\<close> event follows either, and after the cancel call the turn writes an \<open>error\<close>
  event, since its own flag \<open>isCancelled\<close> is set by the handler of \<open>close\<close> only.
\<close>

lemma finish_interrupted:
  assumes "inFlight (sessionId req) ts" and "sessionId req \<noteq> []"
    and "seng prompt = Some st" and "interrupted (chunks st)"
  shows "ai_messages (db (snd (sendMessageStream_finish cfg seng now req sched c prompt pre ts)))
           = ai_messages (db (snd ts))
       \<and> doneMessages (written (fst (sendMessageStream_finish cfg seng now req sched c prompt pre ts)))
           = doneMessages (written (fst ts))"
proof -
  obtain e where "fst (generateStreamingResponse seng (sessionId req) prompt pre ts) = Inl e"
    using generateStreamingResponse_interrupted [of "sessionId req" ts seng prompt st pre,
        OF assms]
    by blast
  then obtain ts6 where g:
    "generateStreamingResponse seng (sessionId req) prompt pre ts = (Inl e, ts6)"
    by (cases "generateStreamingResponse seng (sessionId req) prompt pre ts") auto
  have "db (snd ts6) = db (snd ts)"
    using generateStreamingResponse_state [OF g] by simp
  moreover have "doneMessages (written (fst ts6)) = doneMessages (written (fst ts))"
    using generateStreamingResponse_done [of seng "sessionId req" prompt pre ts] g by simp
  ultimately show ?thesis
    using g by (simp add: sendMessageStream_finish_def Let_def)
qed

lemma fast_interrupted:
  assumes "inFlight (sessionId req) ts" and "sessionId req \<noteq> []"
    and "seng (formatPrompt cfg (getContextMessages (sessionId req) 10 (db (snd ts)))) = Some st"
    and "interrupted (chunks st)"
  shows "ai_messages (db (snd (sendMessageStream_fast cfg seng now req sched c ts)))
           = ai_messages (db (snd ts))
       \<and> doneMessages (written (fst (sendMessageStream_fast cfg seng now req sched c ts)))
           = doneMessages (written (fst ts))"
proof -
  let ?prompt = "formatPrompt cfg (getContextMessages (sessionId req) 10 (db (snd ts)))"
  let ?ts4 = "deliverAll (sessionId req) (sched 4) ts"
  let ?ts5 = "(sendEvent (Start (sessionId req)) (fst ?ts4), snd ?ts4)"
  have f: "inFlight (sessionId req) ?ts5"
    using deliverAll_inFlight [OF assms(1), of "sched 4"]
      sendEvent_inFlight [of "sessionId req" "fst ?ts4" "snd ?ts4"]
    by simp
  obtain e where "fst (generateStreamingResponse seng (sessionId req) ?prompt [] ?ts5) = Inl e"
    using generateStreamingResponse_interrupted [of "sessionId req" ?ts5 seng ?prompt st "[]",
        OF f assms(2) assms(3) assms(4)]
    by blast
  then obtain ts6 where g:
    "generateStreamingResponse seng (sessionId req) ?prompt [] ?ts5 = (Inl e, ts6)"
    by (cases "generateStreamingResponse seng (sessionId req) ?prompt [] ?ts5") auto
  have "db (snd ts6) = db (snd ts)"
    using generateStreamingResponse_state [OF g] by simp
  moreover have "doneMessages (written (fst ts6)) = doneMessages (written (fst ts))"
    using generateStreamingResponse_done [of seng "sessionId req" ?prompt "[]" ?ts5] g by simp
  ultimately show ?thesis
    using g by (simp add: sendMessageStream_fast_def Let_def)
qed

lemma interrupted_generation:
  assumes "getConversation sid (db s) = Some c"
    and "status c \<noteq> ''staff-taken''"
    and "\<not> exceeded (checkLimits sid now (db s))"
    and "sid \<noteq> []"
    and mode: "\<not> safetyMode cfg \<or> (\<not> isEmergency (detectEmergency msg)
                 \<and> \<not> isProhibited (detectProhibitedTopic msg))"
    and e: "seng (formatPrompt cfg (getContextMessages sid 10 (afterUser c msg now s))) = Some st"
    and i: "interrupted (chunks st)"
  shows "ai_messages (db (snd (sendMessageStream cfg seng now (patientMessage sid msg) sched s)))
           = ai_messages (db s) @ [userRow c msg now s]
       \<and> doneMessages
           (written (fst (sendMessageStream cfg seng now (patientMessage sid msg) sched s))) = []"
proof -
  let ?req = "patientMessage sid msg"
  let ?prompt = "formatPrompt cfg (getContextMessages sid 10 (afterUser c msg now s))"
  let ?ts3 = "awaited sid (sched 3) (afterUser c msg now s)
                (deliverAll sid (sched 2)
                  (deliverAll sid (sched 1)
                    (newTurn,
                     s\<lparr>activeSessions := (activeSessions s)(sid \<mapsto> \<lparr>sd_isCancelled = False\<rparr>)\<rparr>)))"
  let ?ts4 = "deliverAll sid (sched 4) ?ts3"
  let ?ts5 = "(sendEvent (Start sid) (fst ?ts4), snd ?ts4)"
  let ?pre = "message urgentResponse @ ''\<newline>\<newline>''"
  let ?ts5u = "(sendEvent (Token ?pre ?pre) (fst ?ts5), snd ?ts5)"
  have f3: "inFlight sid ?ts3"
    by (intro awaited_inFlight deliverAll_inFlight newTurn_inFlight)
  have f5: "inFlight sid ?ts5"
    using deliverAll_inFlight [OF f3, of "sched 4"]
      sendEvent_inFlight [of sid "fst ?ts4" "snd ?ts4"]
    by simp
  have f5u: "inFlight sid ?ts5u"
    using sendEvent_inFlight [of sid "fst ?ts5" "snd ?ts5"] f5 by simp
  show ?thesis
  proof (cases "safetyMode cfg")
    case False
    have r: "sendMessageStream cfg seng now ?req sched s
               = sendMessageStream_fast cfg seng now ?req sched c ?ts3"
      using assms(1-3) False
      by (simp add: sendMessageStream_def addMessage_known getConversation_known afterUser_def
          userRow_def Let_def)
    have e': "seng (formatPrompt cfg (getContextMessages (sessionId ?req) 10 (db (snd ?ts3))))
                = Some st"
      using e by simp
    show ?thesis
      using fast_interrupted [of ?req ?ts3 seng cfg st now sched c] f3 assms(4) e' i
      unfolding r by (simp add: afterUser_def newTurn_def)
  next
    case True
    with mode have n: "\<not> isEmergency (detectEmergency msg)"
      "\<not> isProhibited (detectProhibitedTopic msg)"
      by simp_all
    have r: "sendMessageStream cfg seng now ?req sched s
               = (if isUrgent (detectEmergency msg)
                  then sendMessageStream_finish cfg seng now ?req sched c ?prompt ?pre ?ts5u
                  else sendMessageStream_finish cfg seng now ?req sched c ?prompt [] ?ts5)"
      using assms(1-3) True n
      by (simp add: sendMessageStream_def sendMessageStream_safe_def
          sendMessageStream_generate_def addMessage_known getConversation_known afterUser_def
          userRow_def detectEmergency_urgent_response Let_def)
    show ?thesis
    proof (cases "isUrgent (detectEmergency msg)")
      case True
      show ?thesis
        using finish_interrupted [of ?req ?ts5u seng ?prompt st cfg now sched c ?pre]
          f5u assms(4) e i True
        unfolding r by (simp add: afterUser_def newTurn_def)
    next
      case False
      show ?thesis
        using finish_interrupted [of ?req ?ts5 seng ?prompt st cfg now sched c "[]"]
          f5 assms(4) e i False
        unfolding r by (simp add: afterUser_def newTurn_def)
    qed
  qed
qed

lemma cancel_during_generation:
  "written (fst (sendMessageStream safeCfg sengCancelled 2000 (patientMessage sid1 ''hello'')
                   quiet sys1))
     = [Start sid1, Token ''Rest and'' ''Rest and'', ErrorEvent ''INTERNAL_ERROR'']
   \<and> map content (ai_messages (db
         (snd (sendMessageStream safeCfg sengCancelled 2000 (patientMessage sid1 ''hello'')
                 quiet sys1))))
       = [''Hello! How can I help you today?'', ''hello'']
   \<and> written (fst (sendMessageStream safeCfg sengDisconnected 2000
                     (patientMessage sid1 ''hello'') quiet sys1))
       = [Start sid1, Token ''Rest and'' ''Rest and'']
   \<and> map content (ai_messages (db
         (snd (sendMessageStream safeCfg sengDisconnected 2000 (patientMessage sid1 ''hello'')
                 quiet sys1))))
       = [''Hello! How can I help you today?'', ''hello'']"
  by (simp add: stream_eval store_eval safeCfg_def hello_normal sengCancelled_def
      sengDisconnected_def Let_def sid1_def)

text \<open>
  C5, at four streamed turns on \<open>sys1\<close> in safety mode.
  \<^item> The emergency message, with a cancel call handled while the turn waits for
    \<open>getConversation\<close>: the entry of the session records the cancellation, and the turn
    still writes its \<open>token\<close> and \<open>done\<close> events and stores the assistant message.
  \<^item> The message \<open>hello\<close>, with a cancel call handled while the turn waits for the insert
    of the assistant message: the \<open>done\<close> event is written and the message is stored.
  \<^item> The urgent message, with a cancel call handled before the engine is called: the
    advisory is still written as a \<open>token\<close> event.
  \<^item> The emergency message, with a disconnect handled while the turn waits for
    \<open>getConversation\<close>: no event is written, and the assistant message is stored.
\<close>

theorem cancel_call_does_not_stop_turn:
  "activeSessions
     (snd (sendMessageStream safeCfg sengRest 2000 (patientMessage sid1 ''I have chest pain'')
             (cancelAt 1) sys1)) sid1 = Some \<lparr>sd_isCancelled = True\<rparr>
   \<and> written
       (fst (sendMessageStream safeCfg sengRest 2000 (patientMessage sid1 ''I have chest pain'')
               (cancelAt 1) sys1))
       = [Start sid1, Token (message emergencyResponse) (message emergencyResponse),
          Done \<lparr>p_sessionId = sid1, p_message = message emergencyResponse,
                p_role = ''assistant'',
                p_metadata = [(''isEmergency'', JBool True), (''priority'', JStr ''emergency''),
                              (''handoffCreated'', JBool True)]\<rparr>]
   \<and> map content (ai_messages (db
         (snd (sendMessageStream safeCfg sengRest 2000
                 (patientMessage sid1 ''I have chest pain'') (cancelAt 1) sys1))))
       = [''Hello! How can I help you today?'', ''I have chest pain'',
          message emergencyResponse]
   \<and> doneMessages (written
         (fst (sendMessageStream safeCfg sengRest 2000 (patientMessage sid1 ''hello'')
                 (cancelAt 6) sys1)))
       = [''Rest and drink water.'']
   \<and> map content (ai_messages (db
         (snd (sendMessageStream safeCfg sengRest 2000 (patientMessage sid1 ''hello'')
                 (cancelAt 6) sys1))))
       = [''Hello! How can I help you today?'', ''hello'', ''Rest and drink water.'']
   \<and> written
       (fst (sendMessageStream safeCfg sengRest 2000
               (patientMessage sid1 ''I have a high fever'') (cancelAt 4) sys1))
       = [Start sid1,
          Token (message urgentResponse @ ''\<newline>\<newline>'')
                (message urgentResponse @ ''\<newline>\<newline>''),
          ErrorEvent ''INTERNAL_ERROR'']
   \<and> written
       (fst (sendMessageStream safeCfg sengRest 2000 (patientMessage sid1 ''I have chest pain'')
               (disconnectAt 1) sys1))
       = []
   \<and> map content (ai_messages (db
         (snd (sendMessageStream safeCfg sengRest 2000
                 (patientMessage sid1 ''I have chest pain'') (disconnectAt 1) sys1))))
       = [''Hello! How can I help you today?'', ''I have chest pain'',
          message emergencyResponse]"
  by (simp add: stream_eval store_eval safeCfg_def hello_normal fever_urgent
      chest_pain_emergency chest_pain_allowed detectEmergency_response
      detectEmergency_urgent_response sengRest_def rest_clean rest_valid Let_def sid1_def)

end
